theory Spec2Isabelle
  imports Main "HOL-Library.AList"
begin

section \<open>Text formatting used by the color store\<close>

text \<open>
  The store builds its messages with \<^verbatim>\<open>fmt.Sprintf\<close>. Two verbs occur: \<^verbatim>\<open>%s\<close>, which
  splices a string in unchanged, and \<^verbatim>\<open>%d\<close>, applied only to \<^verbatim>\<open>len(...)\<close> and to a loop
  index plus one, hence to non-negative integers. \<open>itoa\<close> is the decimal rendering of such
  a number: most significant digit first, no sign, no leading zero.
\<close>

definition digit :: "nat \<Rightarrow> char" where
  "digit d = ''0123456789'' ! (d mod 10)"

function itoa :: "nat \<Rightarrow> string" where
  "itoa n = (if n < 10 then [digit n] else itoa (n div 10) @ [digit (n mod 10)])"
  by pat_completeness auto
termination
  by (relation "measure (\<lambda>n. n)") auto

declare itoa.simps [simp del]

definition quote :: char where
  "quote = CHR 0x27"

definition newline :: char where
  "newline = CHR 0x0A"

section \<open>The color store (internal/storage/colors.go)\<close>

text \<open>
  \<^verbatim>\<open>ColorStorage\<close> holds the slice of colors and a read/write mutex. Every method takes
  the lock on entry and releases it on return, so in a sequential run the mutex has no
  effect on results; the record keeps the data field only. In this section the slice is
  the sequence of strings it shows, and each method is a function from the store before
  the call to the returned values and the store after the call. The arrays under the
  slices are the subject of the next section, which relates the two.
\<close>

record ColorStorage =
  colors :: "string list"

definition NewColorStorage :: ColorStorage where
  "NewColorStorage = \<lparr>colors = []\<rparr>"

text \<open>
  The scan of \<^verbatim>\<open>AddColor\<close>: \<^verbatim>\<open>for _, existingColor := range cs.colors\<close>, leaving with
  \<open>True\<close> at the first element equal to \<open>color\<close>.
\<close>

fun AddColor_scan :: "string list \<Rightarrow> string \<Rightarrow> bool" where
  "AddColor_scan [] color = False"
| "AddColor_scan (existingColor # rest) color =
     (if existingColor = color then True else AddColor_scan rest color)"

definition AddColor :: "ColorStorage \<Rightarrow> string \<Rightarrow> (string \<times> bool) \<times> ColorStorage" where
  "AddColor cs color =
     (if AddColor_scan (colors cs) color
      then ((''Color '' @ [quote] @ color @ [quote] @ '' is already in your favorites'', False), cs)
      else ((''Successfully added '' @ [quote] @ color @ [quote] @ '' to your favorite colors!'', True),
            cs\<lparr>colors := colors cs @ [color]\<rparr>))"

text \<open>
  The loop of \<^verbatim>\<open>GetColors\<close>: \<^verbatim>\<open>for i, color := range colors\<close> appends
  \<^verbatim>\<open>fmt.Sprintf("%d. %s\n", i+1, color)\<close> to the text built so far.
\<close>

fun GetColors_loop :: "nat \<Rightarrow> string list \<Rightarrow> string \<Rightarrow> string" where
  "GetColors_loop i [] text = text"
| "GetColors_loop i (color # rest) text =
     GetColors_loop (Suc i) rest (text @ itoa (i + 1) @ ''. '' @ color @ [newline])"

definition GetColors :: "ColorStorage \<Rightarrow> (string list \<times> string) \<times> ColorStorage" where
  "GetColors cs =
     (let colors' = colors cs;
          text = (if length colors' = 0 then ''You have no favorite colors yet.''
                  else GetColors_loop 0 colors'
                         (''Your favorite colors ('' @ itoa (length colors') @ '' total):'' @ [newline]))
      in ((colors', text), cs))"

text \<open>
  The scan of \<^verbatim>\<open>RemoveColor\<close>: \<^verbatim>\<open>for i, existingColor := range cs.colors\<close>, leaving at
  the first index \<open>i\<close> whose element equals \<open>color\<close>. The first argument is the index of
  the head of the part of the slice still to be visited.
\<close>

fun RemoveColor_scan :: "nat \<Rightarrow> string list \<Rightarrow> string \<Rightarrow> nat option" where
  "RemoveColor_scan i [] color = None"
| "RemoveColor_scan i (existingColor # rest) color =
     (if existingColor = color then Some i else RemoveColor_scan (Suc i) rest color)"

text \<open>
  At the index found, the store becomes \<^verbatim>\<open>append(cs.colors[:i], cs.colors[i+1:]...)\<close>:
  the elements before \<open>i\<close> followed by the elements after \<open>i\<close>.
\<close>

definition RemoveColor :: "ColorStorage \<Rightarrow> string \<Rightarrow> (string \<times> bool) \<times> ColorStorage" where
  "RemoveColor cs color =
     (case RemoveColor_scan 0 (colors cs) color of
        Some i \<Rightarrow>
          ((''Successfully removed '' @ [quote] @ color @ [quote] @ '' from your favorite colors!'', True),
           cs\<lparr>colors := take i (colors cs) @ drop (i + 1) (colors cs)\<rparr>)
      | None \<Rightarrow>
          ((''Color '' @ [quote] @ color @ [quote] @ '' was not found in your favorites'', False), cs))"

definition ClearColors :: "ColorStorage \<Rightarrow> (string \<times> nat) \<times> ColorStorage" where
  "ClearColors cs =
     (let clearedCount = length (colors cs)
      in ((''Successfully cleared '' @ itoa clearedCount @ '' favorite colors!'', clearedCount),
          cs\<lparr>colors := []\<rparr>))"

definition Count :: "ColorStorage \<Rightarrow> nat \<times> ColorStorage" where
  "Count cs = (length (colors cs), cs)"

subsection \<open>Runs of store operations\<close>

text \<open>
  The five methods are the only code that touches \<^verbatim>\<open>cs.colors\<close>, a field private to the
  package. A store in use is therefore what a finite run of method calls makes of
  \<open>NewColorStorage\<close>.
\<close>

datatype store_op = Add string | Get | Remove string | Clear | CountOp

fun store_step :: "ColorStorage \<Rightarrow> store_op \<Rightarrow> ColorStorage" where
  "store_step cs (Add color) = snd (AddColor cs color)"
| "store_step cs Get = snd (GetColors cs)"
| "store_step cs (Remove color) = snd (RemoveColor cs color)"
| "store_step cs Clear = snd (ClearColors cs)"
| "store_step cs CountOp = snd (Count cs)"

definition store_run :: "store_op list \<Rightarrow> ColorStorage" where
  "store_run ops = foldl store_step NewColorStorage ops"

text \<open>A sequence of \<open>AddColor\<close> calls, one after the other, with the flag each returns.\<close>

fun add_all :: "ColorStorage \<Rightarrow> string list \<Rightarrow> bool list \<times> ColorStorage" where
  "add_all cs [] = ([], cs)"
| "add_all cs (color # rest) =
     (let ((message, added), cs') = AddColor cs color;
          (flags, cs'') = add_all cs' rest
      in (added # flags, cs''))"

section \<open>The color store over its backing arrays\<close>

text \<open>
  A Go slice is a view of a backing array: the array, a length, and the array's size as
  capacity. Two slices over one array share its cells, and \<^verbatim>\<open>append\<close> writes into the
  array of its first argument whenever the capacity suffices. Whether what \<^verbatim>\<open>GetColors\<close>
  returns is a copy, or a view that later calls change, is not visible in the store as a
  sequence; this section gives the store's methods over explicit arrays.

  \<open>cells\<close> maps an array's number to its cells; the arrays numbered below \<open>next_free\<close>
  are allocated. Every slice the store keeps or returns starts at the first cell of its
  array (\<^verbatim>\<open>cs.colors[i+1:]\<close> occurs only as the values handed to \<^verbatim>\<open>append\<close>), so a
  slice is its array's number and its length; its capacity is the number of cells of the
  array.
\<close>

record slice =
  base :: nat
  len :: nat

record mem_store =
  cells :: "nat \<Rightarrow> string list"
  next_free :: nat
  colors_mem :: slice

text \<open>The elements a slice shows: the first \<open>len\<close> cells of its array.\<close>

definition elems :: "mem_store \<Rightarrow> slice \<Rightarrow> string list" where
  "elems m sl = take (len sl) (cells m (base sl))"

text \<open>The store as a sequence: what \<^verbatim>\<open>cs.colors\<close> shows.\<close>

definition seq_of :: "mem_store \<Rightarrow> ColorStorage" where
  "seq_of m = \<lparr>colors = elems m (colors_mem m)\<rparr>"

text \<open>Overwriting the cells of an array from position \<open>i\<close> on with the values \<open>vs\<close>.\<close>

definition write_at :: "string list \<Rightarrow> nat \<Rightarrow> string list \<Rightarrow> string list" where
  "write_at a i vs = take i a @ vs @ drop (i + length vs) a"

text \<open>
  \<^verbatim>\<open>make([]string, n)\<close>, and the literal \<^verbatim>\<open>[]string{}\<close> with \<open>n = 0\<close>: a new array of \<open>n\<close>
  empty strings and the slice over all of it.
\<close>

definition make_mem :: "mem_store \<Rightarrow> nat \<Rightarrow> slice \<times> mem_store" where
  "make_mem m n =
     (\<lparr>base = next_free m, len = n\<rparr>,
      m\<lparr>cells := (cells m)(next_free m := replicate n ''''), next_free := next_free m + 1\<rparr>)"

text \<open>
  \<^verbatim>\<open>copy(dst, src)\<close>: as many values as the shorter of the two holds, written to the
  first cells of the array of \<open>dst\<close>.
\<close>

definition copy_mem :: "mem_store \<Rightarrow> slice \<Rightarrow> string list \<Rightarrow> mem_store" where
  "copy_mem m dst vs =
     m\<lparr>cells := (cells m)(base dst := write_at (cells m (base dst)) 0 (take (len dst) vs))\<rparr>"

text \<open>
  \<^verbatim>\<open>append(sl, vs...)\<close>. If the capacity of \<open>sl\<close> fits the new length, the values are
  written into the array of \<open>sl\<close> after its last element. If not, a new array receives
  the elements of \<open>sl\<close> and the values; the runtime chooses its capacity, at least the new
  length, and \<open>slack n\<close> is the number of cells it adds beyond a new length \<open>n\<close>. The
  values are read before anything is written.
\<close>

definition append_mem ::
  "(nat \<Rightarrow> nat) \<Rightarrow> mem_store \<Rightarrow> slice \<Rightarrow> string list \<Rightarrow> slice \<times> mem_store" where
  "append_mem slack m sl vs =
     (let a = cells m (base sl); n = len sl + length vs
      in if n \<le> length a
         then (\<lparr>base = base sl, len = n\<rparr>,
               m\<lparr>cells := (cells m)(base sl := write_at a (len sl) vs)\<rparr>)
         else (\<lparr>base = next_free m, len = n\<rparr>,
               m\<lparr>cells := (cells m)(next_free m := elems m sl @ vs @ replicate (slack n) ''''),
                 next_free := next_free m + 1\<rparr>))"

definition NewColorStorage_mem :: mem_store where
  "NewColorStorage_mem =
     (let (colors', m) = make_mem \<lparr>cells = (\<lambda>_. []), next_free = 0, colors_mem = \<lparr>base = 0, len = 0\<rparr>\<rparr> 0
      in m\<lparr>colors_mem := colors'\<rparr>)"

definition AddColor_mem ::
  "(nat \<Rightarrow> nat) \<Rightarrow> mem_store \<Rightarrow> string \<Rightarrow> (string \<times> bool) \<times> mem_store" where
  "AddColor_mem slack m color =
     (if AddColor_scan (elems m (colors_mem m)) color
      then ((''Color '' @ [quote] @ color @ [quote] @ '' is already in your favorites'', False), m)
      else let (colors', m') = append_mem slack m (colors_mem m) [color]
           in ((''Successfully added '' @ [quote] @ color @ [quote] @ '' to your favorite colors!'', True),
               m'\<lparr>colors_mem := colors'\<rparr>))"

text \<open>
  \<^verbatim>\<open>GetColors\<close> makes a slice of the store's length, copies the store's elements into
  it, builds the text by ranging over the new slice, and returns the new slice.
\<close>

definition GetColors_mem :: "mem_store \<Rightarrow> (slice \<times> string) \<times> mem_store" where
  "GetColors_mem m =
     (let (colors', m1) = make_mem m (len (colors_mem m));
          m2 = copy_mem m1 colors' (elems m1 (colors_mem m1));
          text = (if len colors' = 0 then ''You have no favorite colors yet.''
                  else GetColors_loop 0 (elems m2 colors')
                         (''Your favorite colors ('' @ itoa (len colors') @ '' total):'' @ [newline]))
      in ((colors', text), m2))"

text \<open>
  In \<^verbatim>\<open>RemoveColor\<close> the first argument of \<^verbatim>\<open>append\<close> is \<^verbatim>\<open>cs.colors[:i]\<close>, of length \<open>i\<close>
  over the array of \<^verbatim>\<open>cs.colors\<close>, and the values are the elements of
  \<^verbatim>\<open>cs.colors[i+1:]\<close>.
\<close>

definition RemoveColor_mem ::
  "(nat \<Rightarrow> nat) \<Rightarrow> mem_store \<Rightarrow> string \<Rightarrow> (string \<times> bool) \<times> mem_store" where
  "RemoveColor_mem slack m color =
     (case RemoveColor_scan 0 (elems m (colors_mem m)) color of
        Some i \<Rightarrow>
          let (colors', m') = append_mem slack m ((colors_mem m)\<lparr>len := i\<rparr>)
                                (drop (i + 1) (elems m (colors_mem m)))
          in ((''Successfully removed '' @ [quote] @ color @ [quote] @ '' from your favorite colors!'', True),
              m'\<lparr>colors_mem := colors'\<rparr>)
      | None \<Rightarrow>
          ((''Color '' @ [quote] @ color @ [quote] @ '' was not found in your favorites'', False), m))"

definition ClearColors_mem :: "mem_store \<Rightarrow> (string \<times> nat) \<times> mem_store" where
  "ClearColors_mem m =
     (let clearedCount = len (colors_mem m);
          (colors', m') = make_mem m 0
      in ((''Successfully cleared '' @ itoa clearedCount @ '' favorite colors!'', clearedCount),
          m'\<lparr>colors_mem := colors'\<rparr>))"

definition Count_mem :: "mem_store \<Rightarrow> nat \<times> mem_store" where
  "Count_mem m = (len (colors_mem m), m)"

fun mem_step :: "(nat \<Rightarrow> nat) \<Rightarrow> mem_store \<Rightarrow> store_op \<Rightarrow> mem_store" where
  "mem_step slack m (Add color) = snd (AddColor_mem slack m color)"
| "mem_step slack m Get = snd (GetColors_mem m)"
| "mem_step slack m (Remove color) = snd (RemoveColor_mem slack m color)"
| "mem_step slack m Clear = snd (ClearColors_mem m)"
| "mem_step slack m CountOp = snd (Count_mem m)"

definition mem_run :: "(nat \<Rightarrow> nat) \<Rightarrow> store_op list \<Rightarrow> mem_store" where
  "mem_run slack ops = foldl (mem_step slack) NewColorStorage_mem ops"

text \<open>
  What the holder of a slice can do to it: assign to one of its elements. An index
  outside the slice panics and writes nothing.
\<close>

definition caller_write :: "mem_store \<Rightarrow> slice \<Rightarrow> nat \<Rightarrow> string \<Rightarrow> mem_store" where
  "caller_write m sl i v =
     (if i < len sl then m\<lparr>cells := (cells m)(base sl := (cells m (base sl))[i := v])\<rparr> else m)"

subsection \<open>Shape of the memory and slices apart from the store\<close>

text \<open>
  The store's slice lies in an allocated array and is no longer than it. A slice is
  detached when it lies in an allocated array other than the one under the store.
\<close>

definition wf_mem :: "mem_store \<Rightarrow> bool" where
  "wf_mem m \<longleftrightarrow> base (colors_mem m) < next_free m \<and>
                len (colors_mem m) \<le> length (cells m (base (colors_mem m)))"

definition detached :: "mem_store \<Rightarrow> slice \<Rightarrow> bool" where
  "detached m sl \<longleftrightarrow> base sl < next_free m \<and> base sl \<noteq> base (colors_mem m) \<and>
                     len sl \<le> length (cells m (base sl))"

text \<open>
  After \<^verbatim>\<open>GetColors\<close> has returned a slice, the store's methods and the holder of the
  slice act in any order: an event is a method call or an assignment to an element of the
  returned slice.
\<close>

datatype event = Call store_op | Assign nat string

fun event_step :: "(nat \<Rightarrow> nat) \<Rightarrow> slice \<Rightarrow> mem_store \<Rightarrow> event \<Rightarrow> mem_store" where
  "event_step slack sl m (Call op) = mem_step slack m op"
| "event_step slack sl m (Assign i v) = caller_write m sl i v"

text \<open>The same events on sequences: the calls alone on the store, the assignments alone on a list.\<close>

fun calls_of :: "event list \<Rightarrow> store_op list" where
  "calls_of [] = []"
| "calls_of (Call op # evs) = op # calls_of evs"
| "calls_of (Assign i v # evs) = calls_of evs"

fun assign_all :: "string list \<Rightarrow> event list \<Rightarrow> string list" where
  "assign_all xs [] = xs"
| "assign_all xs (Call op # evs) = assign_all xs evs"
| "assign_all xs (Assign i v # evs) = assign_all (if i < length xs then xs[i := v] else xs) evs"

section \<open>The dispatcher (internal/mcp/server.go)\<close>

subsection \<open>Values and envelopes\<close>

text \<open>
  The fields \<^verbatim>\<open>ID\<close> and \<^verbatim>\<open>Params\<close> of a request are of type \<^verbatim>\<open>interface{}\<close>. The values
  they hold are those that decoding JSON produces: the nil interface (for \<^verbatim>\<open>null\<close> and
  for a field that is absent), a boolean, a number, a string, a slice of such values, or
  a \<^verbatim>\<open>map[string]interface{}\<close>. The dispatcher never looks inside a number, so the
  numbers are integers here. A Go map is written as the list of its entries; \<open>lookup\<close>
  below is \<^verbatim>\<open>m[k]\<close>.
\<close>

datatype json =
    JNull
  | JBool bool
  | JNumber int
  | JString string
  | JArray "json list"
  | JObject "(string \<times> json) list"

text \<open>
  The envelope types are declared in the package's types file; the declarations are
  those of the same names in main.go (the tag \<^verbatim>\<open>omitempty\<close> on \<^verbatim>\<open>ID\<close>, \<^verbatim>\<open>Result\<close>,
  \<^verbatim>\<open>Error\<close> and \<^verbatim>\<open>Data\<close> leaves a nil field out of the encoded object). A nil
  \<^verbatim>\<open>*JSONRPCError\<close> and a nil \<^verbatim>\<open>Result\<close> are \<open>None\<close>.
\<close>

record JSONRPCRequest =
  reqJSONRPC :: string
  reqID :: json
  Method :: string
  Params :: json

record JSONRPCError =
  Code :: int
  Message :: string
  Data :: json

record ServerInfo =
  infoName :: string
  infoVersion :: string

record ServerCapabilities =
  Tools :: unit

record ToolSchema =
  Type :: string
  Properties :: "(string \<times> json) list"
  Required :: "string list"

record Tool =
  Name :: string
  Description :: string
  InputSchema :: ToolSchema

text \<open>
  Every result the dispatcher builds is a \<^verbatim>\<open>map[string]interface{}\<close> whose entries are a
  string, a \<^verbatim>\<open>ServerInfo\<close>, a \<^verbatim>\<open>ServerCapabilities\<close>, a \<^verbatim>\<open>[]Tool\<close> or a
  \<^verbatim>\<open>[]map[string]interface{}\<close>.
\<close>

datatype result_value =
    VString string
  | VServerInfo ServerInfo
  | VServerCapabilities ServerCapabilities
  | VTools "Tool list"
  | VMaps "(string \<times> json) list list"

record JSONRPCResponse =
  JSONRPC :: string
  ID :: json
  Result :: "(string \<times> result_value) list option"
  Error :: "JSONRPCError option"

record Server =
  tools :: "(string \<times> Tool) list"
  storage :: ColorStorage

subsection \<open>Dynamic typing\<close>

text \<open>
  \<open>lookup m k\<close> is \<^verbatim>\<open>m[k]\<close>: the nil interface for a missing key, also on a nil map.
  \<open>asObject v\<close> is \<^verbatim>\<open>v.(map[string]interface{})\<close> and \<open>asString v\<close> is \<^verbatim>\<open>v.(string)\<close>,
  both in the two-result form that does not panic: the zero value (the nil map, which
  has no entries, or the empty string) and \<open>False\<close> when the value is of another type.
\<close>

definition lookup :: "(string \<times> json) list \<Rightarrow> string \<Rightarrow> json" where
  "lookup m k = (case map_of m k of None \<Rightarrow> JNull | Some v \<Rightarrow> v)"

fun asObject :: "json \<Rightarrow> (string \<times> json) list \<times> bool" where
  "asObject (JObject m) = (m, True)"
| "asObject _ = ([], False)"

fun asString :: "json \<Rightarrow> string \<times> bool" where
  "asString (JString s) = (s, True)"
| "asString _ = ('''', False)"

subsection \<open>Tool registry\<close>

definition RegisterTool :: "Server \<Rightarrow> Tool \<Rightarrow> Server" where
  "RegisterTool s tool = s\<lparr>tools := AList.update (Name tool) tool (tools s)\<rparr>"

definition registerTools :: "Server \<Rightarrow> Server" where
  "registerTools s0 =
     (let s1 = RegisterTool s0
                 \<lparr>Name = ''add_color'',
                  Description = ''Add a color to your favorites list'',
                  InputSchema = \<lparr>Type = ''object'',
                    Properties = [(''color'', JObject [(''type'', JString ''string''),
                       (''description'', JString ''The color to add to favorites'')])],
                    Required = [''color'']\<rparr>\<rparr>;
          s2 = RegisterTool s1
                 \<lparr>Name = ''get_colors'',
                  Description = ''Get all favorite colors'',
                  InputSchema = \<lparr>Type = ''object'', Properties = [], Required = []\<rparr>\<rparr>;
          s3 = RegisterTool s2
                 \<lparr>Name = ''remove_color'',
                  Description = ''Remove a color from your favorites list'',
                  InputSchema = \<lparr>Type = ''object'',
                    Properties = [(''color'', JObject [(''type'', JString ''string''),
                       (''description'', JString ''The color to remove from favorites'')])],
                    Required = [''color'']\<rparr>\<rparr>;
          s4 = RegisterTool s3
                 \<lparr>Name = ''clear_colors'',
                  Description = ''Clear all favorite colors'',
                  InputSchema = \<lparr>Type = ''object'', Properties = [], Required = []\<rparr>\<rparr>
      in s4)"

definition NewServer :: Server where
  "NewServer = registerTools \<lparr>tools = [], storage = NewColorStorage\<rparr>"

subsection \<open>Handlers\<close>

text \<open>
  Each handler takes the server and the request and returns the response together with
  the server after the call. \<open>handleToolsList\<close> ranges over a Go map, whose iteration
  order the runtime chooses; the order is the parameter \<open>range_order\<close>, which maps the
  entries to the sequence in which the loop visits them.
\<close>

definition handleInitialize :: "Server \<Rightarrow> JSONRPCRequest \<Rightarrow> JSONRPCResponse \<times> Server" where
  "handleInitialize s req =
     (\<lparr>JSONRPC = ''2.0'', ID = reqID req,
       Result = Some [(''protocolVersion'', VString ''2024-11-05''),
                      (''serverInfo'', VServerInfo \<lparr>infoName = ''favorite-colors-mcp'', infoVersion = ''1.0.0''\<rparr>),
                      (''capabilities'', VServerCapabilities \<lparr>Tools = ()\<rparr>)],
       Error = None\<rparr>, s)"

definition handleToolsList ::
  "((string \<times> Tool) list \<Rightarrow> (string \<times> Tool) list) \<Rightarrow> Server \<Rightarrow> JSONRPCRequest
     \<Rightarrow> JSONRPCResponse \<times> Server" where
  "handleToolsList range_order s req =
     (let tools' = foldl (\<lambda>acc entry. acc @ [snd entry]) [] (range_order (tools s))
      in (\<lparr>JSONRPC = ''2.0'', ID = reqID req,
           Result = Some [(''tools'', VTools tools')],
           Error = None\<rparr>, s))"

definition handleAddColor ::
  "Server \<Rightarrow> JSONRPCRequest \<Rightarrow> (string \<times> json) list \<Rightarrow> JSONRPCResponse \<times> Server" where
  "handleAddColor s req args =
     (let (color, ok) = asString (lookup args ''color'')
      in if \<not> ok \<or> color = ''''
         then (\<lparr>JSONRPC = ''2.0'', ID = reqID req, Result = None,
                Error = Some \<lparr>Code = - 32602, Message = ''Color parameter required'', Data = JNull\<rparr>\<rparr>, s)
         else let ((message, added), storage') = AddColor (storage s) color
              in (\<lparr>JSONRPC = ''2.0'', ID = reqID req,
                   Result = Some [(''content'',
                     VMaps [[(''type'', JString ''text''), (''text'', JString message)]])],
                   Error = None\<rparr>, s\<lparr>storage := storage'\<rparr>))"

definition handleGetColors ::
  "Server \<Rightarrow> JSONRPCRequest \<Rightarrow> (string \<times> json) list \<Rightarrow> JSONRPCResponse \<times> Server" where
  "handleGetColors s req args =
     (let ((colors', text), storage') = GetColors (storage s)
      in (\<lparr>JSONRPC = ''2.0'', ID = reqID req,
           Result = Some [(''content'',
             VMaps [[(''type'', JString ''text''), (''text'', JString text)]])],
           Error = None\<rparr>, s\<lparr>storage := storage'\<rparr>))"

definition handleRemoveColor ::
  "Server \<Rightarrow> JSONRPCRequest \<Rightarrow> (string \<times> json) list \<Rightarrow> JSONRPCResponse \<times> Server" where
  "handleRemoveColor s req args =
     (let (color, ok) = asString (lookup args ''color'')
      in if \<not> ok \<or> color = ''''
         then (\<lparr>JSONRPC = ''2.0'', ID = reqID req, Result = None,
                Error = Some \<lparr>Code = - 32602, Message = ''Color parameter required'', Data = JNull\<rparr>\<rparr>, s)
         else let ((message, removed), storage') = RemoveColor (storage s) color
              in (\<lparr>JSONRPC = ''2.0'', ID = reqID req,
                   Result = Some [(''content'',
                     VMaps [[(''type'', JString ''text''), (''text'', JString message)]])],
                   Error = None\<rparr>, s\<lparr>storage := storage'\<rparr>))"

definition handleClearColors ::
  "Server \<Rightarrow> JSONRPCRequest \<Rightarrow> (string \<times> json) list \<Rightarrow> JSONRPCResponse \<times> Server" where
  "handleClearColors s req args =
     (let ((message, count), storage') = ClearColors (storage s)
      in (\<lparr>JSONRPC = ''2.0'', ID = reqID req,
           Result = Some [(''content'',
             VMaps [[(''type'', JString ''text''), (''text'', JString message)]])],
           Error = None\<rparr>, s\<lparr>storage := storage'\<rparr>))"

definition handleToolsCall :: "Server \<Rightarrow> JSONRPCRequest \<Rightarrow> JSONRPCResponse \<times> Server" where
  "handleToolsCall s req =
     (let (params, ok) = asObject (Params req)
      in if \<not> ok
         then (\<lparr>JSONRPC = ''2.0'', ID = reqID req, Result = None,
                Error = Some \<lparr>Code = - 32602, Message = ''Invalid params'', Data = JNull\<rparr>\<rparr>, s)
         else let (toolName, ok) = asString (lookup params ''name'')
              in if \<not> ok
                 then (\<lparr>JSONRPC = ''2.0'', ID = reqID req, Result = None,
                        Error = Some \<lparr>Code = - 32602, Message = ''Tool name required'', Data = JNull\<rparr>\<rparr>, s)
                 else let (arguments, _) = asObject (lookup params ''arguments'')
                      in if toolName = ''add_color'' then handleAddColor s req arguments
                         else if toolName = ''get_colors'' then handleGetColors s req arguments
                         else if toolName = ''remove_color'' then handleRemoveColor s req arguments
                         else if toolName = ''clear_colors'' then handleClearColors s req arguments
                         else (\<lparr>JSONRPC = ''2.0'', ID = reqID req, Result = None,
                                Error = Some \<lparr>Code = - 32601, Message = ''Tool not found'', Data = JNull\<rparr>\<rparr>, s))"

definition HandleRequest ::
  "((string \<times> Tool) list \<Rightarrow> (string \<times> Tool) list) \<Rightarrow> Server \<Rightarrow> JSONRPCRequest
     \<Rightarrow> JSONRPCResponse \<times> Server" where
  "HandleRequest range_order s req =
     (if Method req = ''initialize'' then handleInitialize s req
      else if Method req = ''tools/list'' then handleToolsList range_order s req
      else if Method req = ''tools/call'' then handleToolsCall s req
      else (\<lparr>JSONRPC = ''2.0'', ID = reqID req, Result = None,
             Error = Some \<lparr>Code = - 32601, Message = ''Method not found'', Data = JNull\<rparr>\<rparr>, s))"

section \<open>Responses, as the claims name them\<close>

text \<open>
  An error response with a given code and message: version tag, the request's
  identifier, no result, and an error object without extra data. A text result: version
  tag, the request's identifier, no error, and a result whose \<open>content\<close> is a single text
  block holding the message.
\<close>

definition error_response :: "JSONRPCRequest \<Rightarrow> int \<Rightarrow> string \<Rightarrow> JSONRPCResponse" where
  "error_response req code msg =
     \<lparr>JSONRPC = ''2.0'', ID = reqID req, Result = None,
      Error = Some \<lparr>Code = code, Message = msg, Data = JNull\<rparr>\<rparr>"

definition text_result :: "JSONRPCRequest \<Rightarrow> string \<Rightarrow> JSONRPCResponse" where
  "text_result req msg =
     \<lparr>JSONRPC = ''2.0'', ID = reqID req,
      Result = Some [(''content'', VMaps [[(''type'', JString ''text''), (''text'', JString msg)]])],
      Error = None\<rparr>"

section \<open>The store's listing, as the specification words it\<close>

text \<open>
  A second rendering, written from the specification's description of \<^verbatim>\<open>get()\<close> and not
  from the code: the fixed sentence for an empty sequence; otherwise a header with the
  total count, then for each position \<open>k\<close> (counted from 0) the line made of \<open>k + 1\<close>,
  a dot, a space, the color at position \<open>k\<close> and a line break.
\<close>

definition numbered_line :: "nat \<Rightarrow> string \<Rightarrow> string" where
  "numbered_line k color = itoa k @ ''. '' @ color @ [newline]"

definition spec_listing :: "string list \<Rightarrow> string" where
  "spec_listing cols =
     (if cols = [] then ''You have no favorite colors yet.''
      else ''Your favorite colors ('' @ itoa (length cols) @ '' total):'' @ [newline]
           @ concat (map (\<lambda>k. numbered_line (k + 1) (cols ! k)) [0..<length cols]))"

section \<open>Reading a decimal rendering back\<close>

text \<open>Reading the digits of \<open>itoa n\<close> back as a decimal number gives \<open>n\<close> again.\<close>

definition digit_value :: "char \<Rightarrow> nat" where
  "digit_value c = of_char c - 48"

definition atoi :: "string \<Rightarrow> nat" where
  "atoi s = foldl (\<lambda>acc c. 10 * acc + digit_value c) 0 s"

section \<open>Properties of the color store\<close>

subsection \<open>Decimal rendering\<close>

lemma digit_value_digit: "d < 10 \<Longrightarrow> digit_value (digit d) = d"
proof -
  assume "d < 10"
  then have "d \<in> {0, 1, 2, 3, 4, 5, 6, 7, 8, 9}" by auto
  then show ?thesis
    by (auto simp: digit_value_def digit_def)
qed

lemma atoi_snoc: "atoi (s @ [c]) = 10 * atoi s + digit_value c"
  by (simp add: atoi_def)

lemma atoi_itoa: "atoi (itoa n) = n"
proof (induction n rule: itoa.induct)
  case (1 n)
  show ?case
  proof (cases "n < 10")
    case True
    then show ?thesis
      by (subst itoa.simps) (simp add: atoi_def digit_value_digit)
  next
    case False
    with "1" have "atoi (itoa (n div 10)) = n div 10" by simp
    with False show ?thesis
      by (subst itoa.simps) (simp add: atoi_snoc digit_value_digit)
  qed
qed

lemma itoa_inj: "itoa m = itoa n \<Longrightarrow> m = n"
  by (metis atoi_itoa)

subsection \<open>The scans\<close>

lemma AddColor_scan_iff: "AddColor_scan cols color \<longleftrightarrow> color \<in> set cols"
  by (induction cols) auto

lemma RemoveColor_scan_None: "RemoveColor_scan i cols color = None \<longleftrightarrow> color \<notin> set cols"
  by (induction cols arbitrary: i) auto

lemma RemoveColor_scan_first:
  "color \<notin> set before \<Longrightarrow> RemoveColor_scan i (before @ color # after) color = Some (i + length before)"
  by (induction before arbitrary: i) auto

lemma GetColors_loop_eq:
  "GetColors_loop i cols acc =
     acc @ concat (map (\<lambda>k. numbered_line (i + k + 1) (cols ! k)) [0..<length cols])"
proof (induction cols arbitrary: i acc)
  case Nil
  then show ?case by simp
next
  case (Cons color rest)
  have idx: "[0..<length (color # rest)] = 0 # map Suc [0..<length rest]"
    by (simp add: upt_conv_Cons map_Suc_upt del: upt_Suc)
  have shift: "map (\<lambda>k. numbered_line (i + k + 1) ((color # rest) ! k)) [0..<length (color # rest)]
        = numbered_line (i + 1) color # map (\<lambda>k. numbered_line (Suc i + k + 1) (rest ! k)) [0..<length rest]"
    unfolding idx by (simp add: comp_def)
  show ?case
    unfolding shift by (simp add: Cons.IH numbered_line_def)
qed

subsection \<open>Single operations\<close>

lemma AddColor_present:
  "color \<in> set (colors cs) \<Longrightarrow>
     AddColor cs color =
       ((''Color '' @ [quote] @ color @ [quote] @ '' is already in your favorites'', False), cs)"
  by (simp add: AddColor_def AddColor_scan_iff)

lemma AddColor_absent:
  "color \<notin> set (colors cs) \<Longrightarrow>
     AddColor cs color =
       ((''Successfully added '' @ [quote] @ color @ [quote] @ '' to your favorite colors!'', True),
        cs\<lparr>colors := colors cs @ [color]\<rparr>)"
  by (simp add: AddColor_def AddColor_scan_iff)

lemma RemoveColor_absent:
  "color \<notin> set (colors cs) \<Longrightarrow>
     RemoveColor cs color =
       ((''Color '' @ [quote] @ color @ [quote] @ '' was not found in your favorites'', False), cs)"
proof -
  assume "color \<notin> set (colors cs)"
  then have "RemoveColor_scan 0 (colors cs) color = None"
    by (simp add: RemoveColor_scan_None)
  then show ?thesis
    by (simp add: RemoveColor_def)
qed

lemma RemoveColor_split:
  "colors cs = before @ color # after \<Longrightarrow> color \<notin> set before \<Longrightarrow>
     RemoveColor cs color =
       ((''Successfully removed '' @ [quote] @ color @ [quote] @ '' from your favorite colors!'', True),
        cs\<lparr>colors := before @ after\<rparr>)"
  by (simp add: RemoveColor_def RemoveColor_scan_first)

lemma RemoveColor_colors: "colors (snd (RemoveColor cs color)) = remove1 color (colors cs)"
proof (cases "color \<in> set (colors cs)")
  case True
  then obtain before after where sp: "colors cs = before @ color # after" "color \<notin> set before"
    by (meson split_list_first)
  then show ?thesis
    by (simp add: RemoveColor_split [OF sp] remove1_append)
next
  case False
  then show ?thesis
    by (simp add: RemoveColor_absent remove1_idem)
qed

lemma store_step_distinct: "distinct (colors cs) \<Longrightarrow> distinct (colors (store_step cs op))"
proof (cases op)
  case (Add color)
  assume "distinct (colors cs)"
  with Add show ?thesis
    by (cases "color \<in> set (colors cs)") (simp_all add: AddColor_present AddColor_absent)
next
  case (Remove color)
  assume "distinct (colors cs)"
  with Remove show ?thesis
    by (simp add: RemoveColor_colors)
qed (simp_all add: GetColors_def ClearColors_def Count_def Let_def)

lemma foldl_store_step_distinct:
  "distinct (colors cs) \<Longrightarrow> distinct (colors (foldl store_step cs ops))"
  by (induction ops arbitrary: cs) (simp_all add: store_step_distinct)

lemma store_run_distinct: "distinct (colors (store_run ops))"
  by (simp add: store_run_def foldl_store_step_distinct NewColorStorage_def)

subsection \<open>Additions of distinct colors\<close>

text \<open>
  Calls of \<open>AddColor\<close> one after the other, with the flags they return. For colors that
  are pairwise distinct and absent from the store, every call reports \<open>True\<close> and the
  count grows by the number of calls, whatever the order of the calls.
\<close>

lemma add_all_distinct:
  "distinct cols \<Longrightarrow> set cols \<inter> set (colors cs) = {} \<Longrightarrow>
     fst (add_all cs cols) = replicate (length cols) True \<and>
     colors (snd (add_all cs cols)) = colors cs @ cols"
proof (induction cols arbitrary: cs)
  case Nil
  then show ?case by simp
next
  case (Cons c cols)
  from Cons.prems have absent: "c \<notin> set (colors cs)" by auto
  let ?cs' = "cs\<lparr>colors := colors cs @ [c]\<rparr>"
  from Cons.prems have "distinct cols" and "set cols \<inter> set (colors ?cs') = {}" by auto
  from Cons.IH [OF this] show ?case
    by (simp add: AddColor_absent [OF absent] case_prod_unfold)
qed

lemma add_all_from_empty:
  "distinct cols \<Longrightarrow>
     fst (add_all NewColorStorage cols) = replicate (length cols) True \<and>
     fst (Count (snd (add_all NewColorStorage cols))) = length cols"
  using add_all_distinct [of cols NewColorStorage]
  by (simp add: NewColorStorage_def Count_def)

subsection \<open>The store over its backing arrays\<close>

lemma length_elems: "len sl \<le> length (cells m (base sl)) \<Longrightarrow> length (elems m sl) = len sl"
  by (simp add: elems_def)

lemma append_mem_elems:
  assumes "len sl \<le> length (cells m (base sl))"
  shows "elems (snd (append_mem slack m sl vs)) (fst (append_mem slack m sl vs)) = elems m sl @ vs"
proof (cases "len sl + length vs \<le> length (cells m (base sl))")
  case True
  then show ?thesis
    using assms by (simp add: append_mem_def elems_def write_at_def Let_def)
next
  case False
  then show ?thesis
    using assms by (simp add: append_mem_def elems_def Let_def)
qed

lemma append_mem_shape:
  assumes "base sl < next_free m" "len sl \<le> length (cells m (base sl))"
  shows "base (fst (append_mem slack m sl vs)) < next_free (snd (append_mem slack m sl vs))"
    and "len (fst (append_mem slack m sl vs)) \<le>
           length (cells (snd (append_mem slack m sl vs)) (base (fst (append_mem slack m sl vs))))"
    and "colors_mem (snd (append_mem slack m sl vs)) = colors_mem m"
  using assms by (auto simp: append_mem_def write_at_def elems_def Let_def)

lemma append_mem_frame:
  assumes "b < next_free m" "b \<noteq> base sl"
  shows "cells (snd (append_mem slack m sl vs)) b = cells m b"
    and "b < next_free (snd (append_mem slack m sl vs))"
    and "b \<noteq> base (fst (append_mem slack m sl vs))"
  using assms by (auto simp: append_mem_def Let_def)

lemma make_mem_frame:
  assumes "b < next_free m"
  shows "cells (snd (make_mem m n)) b = cells m b"
    and "b < next_free (snd (make_mem m n))"
    and "b \<noteq> base (fst (make_mem m n))"
  using assms by (auto simp: make_mem_def)

lemma make_mem_shape:
  "fst (make_mem m n) = \<lparr>base = next_free m, len = n\<rparr>"
  "cells (snd (make_mem m n)) (next_free m) = replicate n ''''"
  "next_free (snd (make_mem m n)) = next_free m + 1"
  "colors_mem (snd (make_mem m n)) = colors_mem m"
  by (simp_all add: make_mem_def)

lemma wf_NewColorStorage_mem: "wf_mem NewColorStorage_mem"
  by (simp add: wf_mem_def NewColorStorage_mem_def make_mem_def)

lemma seq_of_NewColorStorage_mem: "seq_of NewColorStorage_mem = NewColorStorage"
  by (simp add: seq_of_def elems_def NewColorStorage_mem_def make_mem_def NewColorStorage_def)

lemma AddColor_mem_sim:
  assumes "wf_mem m"
  shows "fst (AddColor_mem slack m color) = fst (AddColor (seq_of m) color)"
    and "seq_of (snd (AddColor_mem slack m color)) = snd (AddColor (seq_of m) color)"
    and "wf_mem (snd (AddColor_mem slack m color))"
proof -
  from assms have b: "base (colors_mem m) < next_free m"
    and l: "len (colors_mem m) \<le> length (cells m (base (colors_mem m)))"
    by (simp_all add: wf_mem_def)
  note el = append_mem_elems [OF l, of slack "[color]"]
  note sh = append_mem_shape [OF b l, of slack "[color]"]
  show "fst (AddColor_mem slack m color) = fst (AddColor (seq_of m) color)"
    by (simp add: AddColor_mem_def AddColor_def seq_of_def case_prod_unfold Let_def)
  show "seq_of (snd (AddColor_mem slack m color)) = snd (AddColor (seq_of m) color)"
    using el by (simp add: AddColor_mem_def AddColor_def seq_of_def elems_def case_prod_unfold Let_def)
  show "wf_mem (snd (AddColor_mem slack m color))"
    using sh assms by (simp add: AddColor_mem_def wf_mem_def case_prod_unfold Let_def)
qed

lemma AddColor_mem_frame:
  assumes "wf_mem m" "detached m sl"
  shows "detached (snd (AddColor_mem slack m color)) sl"
    and "cells (snd (AddColor_mem slack m color)) (base sl) = cells m (base sl)"
proof -
  from assms have b: "base sl < next_free m" and d: "base sl \<noteq> base (colors_mem m)"
    and l: "len sl \<le> length (cells m (base sl))"
    by (simp_all add: detached_def)
  note fr = append_mem_frame [OF b d, of slack "[color]"]
  show "cells (snd (AddColor_mem slack m color)) (base sl) = cells m (base sl)"
    using fr by (simp add: AddColor_mem_def case_prod_unfold Let_def)
  show "detached (snd (AddColor_mem slack m color)) sl"
    using fr assms by (simp add: AddColor_mem_def detached_def case_prod_unfold Let_def)
qed

lemma RemoveColor_scan_bounds:
  "RemoveColor_scan k cols color = Some i \<Longrightarrow> k \<le> i \<and> i < k + length cols"
proof (induction cols arbitrary: k)
  case Nil
  then show ?case by simp
next
  case (Cons c cols)
  show ?case
  proof (cases "c = color")
    case True
    with Cons.prems show ?thesis by simp
  next
    case False
    with Cons.prems have "RemoveColor_scan (Suc k) cols color = Some i" by simp
    from Cons.IH [OF this] show ?thesis by simp
  qed
qed

lemma RemoveColor_mem_found:
  assumes wf: "wf_mem m" and found: "RemoveColor_scan 0 (elems m (colors_mem m)) color = Some i"
  shows "base ((colors_mem m)\<lparr>len := i\<rparr>) < next_free m"
    and "len ((colors_mem m)\<lparr>len := i\<rparr>) \<le> length (cells m (base ((colors_mem m)\<lparr>len := i\<rparr>)))"
    and "elems m ((colors_mem m)\<lparr>len := i\<rparr>) = take i (elems m (colors_mem m))"
proof -
  from wf have b: "base (colors_mem m) < next_free m"
    and l: "len (colors_mem m) \<le> length (cells m (base (colors_mem m)))"
    by (simp_all add: wf_mem_def)
  from RemoveColor_scan_bounds [OF found] have "i < length (elems m (colors_mem m))" by simp
  with l have i: "i < len (colors_mem m)" by (simp add: elems_def)
  show "base ((colors_mem m)\<lparr>len := i\<rparr>) < next_free m"
    using b by simp
  show "len ((colors_mem m)\<lparr>len := i\<rparr>) \<le> length (cells m (base ((colors_mem m)\<lparr>len := i\<rparr>)))"
    using i l by simp
  show "elems m ((colors_mem m)\<lparr>len := i\<rparr>) = take i (elems m (colors_mem m))"
    using i by (simp add: elems_def min_def)
qed

lemma RemoveColor_mem_sim:
  assumes "wf_mem m"
  shows "fst (RemoveColor_mem slack m color) = fst (RemoveColor (seq_of m) color)"
    and "seq_of (snd (RemoveColor_mem slack m color)) = snd (RemoveColor (seq_of m) color)"
    and "wf_mem (snd (RemoveColor_mem slack m color))"
proof -
  have all: "fst (RemoveColor_mem slack m color) = fst (RemoveColor (seq_of m) color) \<and>
      seq_of (snd (RemoveColor_mem slack m color)) = snd (RemoveColor (seq_of m) color) \<and>
      wf_mem (snd (RemoveColor_mem slack m color))"
  proof (cases "RemoveColor_scan 0 (elems m (colors_mem m)) color")
    case None
    with assms show ?thesis
      by (simp add: RemoveColor_mem_def RemoveColor_def seq_of_def)
  next
    case (Some i)
    note f = RemoveColor_mem_found [OF assms Some]
    note el = append_mem_elems [OF f(2), of slack "drop (i + 1) (elems m (colors_mem m))"]
    note sh = append_mem_shape [OF f(1) f(2), of slack "drop (i + 1) (elems m (colors_mem m))"]
    have "seq_of (snd (RemoveColor_mem slack m color)) = snd (RemoveColor (seq_of m) color)"
      using el f(3) Some
      by (simp add: RemoveColor_mem_def RemoveColor_def seq_of_def case_prod_unfold Let_def elems_def)
    moreover have "wf_mem (snd (RemoveColor_mem slack m color))"
      using sh Some by (simp add: RemoveColor_mem_def wf_mem_def case_prod_unfold Let_def)
    moreover have "fst (RemoveColor_mem slack m color) = fst (RemoveColor (seq_of m) color)"
      using Some by (simp add: RemoveColor_mem_def RemoveColor_def seq_of_def case_prod_unfold Let_def)
    ultimately show ?thesis by simp
  qed
  from all show "fst (RemoveColor_mem slack m color) = fst (RemoveColor (seq_of m) color)"
    and "seq_of (snd (RemoveColor_mem slack m color)) = snd (RemoveColor (seq_of m) color)"
    and "wf_mem (snd (RemoveColor_mem slack m color))"
    by simp_all
qed

lemma RemoveColor_mem_frame:
  assumes "wf_mem m" "detached m sl"
  shows "detached (snd (RemoveColor_mem slack m color)) sl"
    and "cells (snd (RemoveColor_mem slack m color)) (base sl) = cells m (base sl)"
proof -
  from assms have b: "base sl < next_free m" and d: "base sl \<noteq> base (colors_mem m)"
    and l: "len sl \<le> length (cells m (base sl))"
    by (simp_all add: detached_def)
  have all: "detached (snd (RemoveColor_mem slack m color)) sl \<and>
      cells (snd (RemoveColor_mem slack m color)) (base sl) = cells m (base sl)"
  proof (cases "RemoveColor_scan 0 (elems m (colors_mem m)) color")
    case None
    with assms show ?thesis
      by (simp add: RemoveColor_mem_def)
  next
    case (Some i)
    from d have d': "base sl \<noteq> base ((colors_mem m)\<lparr>len := i\<rparr>)" by simp
    note fr = append_mem_frame [OF b d', of slack "drop (i + 1) (elems m (colors_mem m))"]
    show ?thesis
      using fr l Some by (simp add: RemoveColor_mem_def detached_def case_prod_unfold Let_def)
  qed
  from all show "detached (snd (RemoveColor_mem slack m color)) sl"
    and "cells (snd (RemoveColor_mem slack m color)) (base sl) = cells m (base sl)"
    by simp_all
qed

lemma ClearColors_mem_sim:
  assumes "wf_mem m"
  shows "fst (ClearColors_mem m) = fst (ClearColors (seq_of m))"
    and "seq_of (snd (ClearColors_mem m)) = snd (ClearColors (seq_of m))"
    and "wf_mem (snd (ClearColors_mem m))"
  using assms
  by (auto simp: ClearColors_mem_def ClearColors_def seq_of_def elems_def make_mem_def wf_mem_def Let_def)

lemma ClearColors_mem_frame:
  assumes "detached m sl"
  shows "detached (snd (ClearColors_mem m)) sl"
    and "cells (snd (ClearColors_mem m)) (base sl) = cells m (base sl)"
  using assms by (auto simp: ClearColors_mem_def detached_def make_mem_def Let_def)

lemma GetColors_text:
  "snd (fst (GetColors cs)) =
     (if length (colors cs) = 0 then ''You have no favorite colors yet.''
      else GetColors_loop 0 (colors cs)
             (''Your favorite colors ('' @ itoa (length (colors cs)) @ '' total):'' @ [newline]))"
  by (simp add: GetColors_def Let_def)

lemma GetColors_mem_result:
  assumes "wf_mem m"
  shows "elems (snd (GetColors_mem m)) (fst (fst (GetColors_mem m))) = colors (seq_of m)"
    and "snd (fst (GetColors_mem m)) = snd (fst (GetColors (seq_of m)))"
    and "seq_of (snd (GetColors_mem m)) = seq_of m"
    and "wf_mem (snd (GetColors_mem m))"
    and "detached (snd (GetColors_mem m)) (fst (fst (GetColors_mem m)))"
proof -
  from assms have b: "base (colors_mem m) < next_free m"
    and l: "len (colors_mem m) \<le> length (cells m (base (colors_mem m)))"
    by (simp_all add: wf_mem_def)
  let ?n = "len (colors_mem m)"
  let ?xs = "take ?n (cells m (base (colors_mem m)))"
  from l have n: "length ?xs = ?n" by simp
  have st: "snd (GetColors_mem m) =
      m\<lparr>cells := (cells m)(next_free m := ?xs), next_free := next_free m + 1\<rparr>"
    using b n by (simp add: GetColors_mem_def make_mem_def copy_mem_def elems_def write_at_def Let_def)
  have sl: "fst (fst (GetColors_mem m)) = \<lparr>base = next_free m, len = ?n\<rparr>"
    by (simp add: GetColors_mem_def make_mem_def Let_def)
  show el: "elems (snd (GetColors_mem m)) (fst (fst (GetColors_mem m))) = colors (seq_of m)"
    using n by (simp add: st sl elems_def seq_of_def)
  have tx: "snd (fst (GetColors_mem m)) =
      (if ?n = 0 then ''You have no favorite colors yet.''
       else GetColors_loop 0 (elems (snd (GetColors_mem m)) (fst (fst (GetColors_mem m))))
              (''Your favorite colors ('' @ itoa ?n @ '' total):'' @ [newline]))"
    by (simp add: GetColors_mem_def make_mem_def Let_def)
  have cn: "length (colors (seq_of m)) = ?n"
    using n by (simp add: seq_of_def elems_def)
  show "snd (fst (GetColors_mem m)) = snd (fst (GetColors (seq_of m)))"
    by (simp only: tx GetColors_text el cn)
  show "seq_of (snd (GetColors_mem m)) = seq_of m"
    using b by (simp add: st seq_of_def elems_def)
  show "wf_mem (snd (GetColors_mem m))"
    using b l by (simp add: st wf_mem_def)
  show "detached (snd (GetColors_mem m)) (fst (fst (GetColors_mem m)))"
    using b n by (simp add: st sl detached_def)
qed

lemma GetColors_mem_frame:
  assumes "detached m sl"
  shows "detached (snd (GetColors_mem m)) sl"
    and "cells (snd (GetColors_mem m)) (base sl) = cells m (base sl)"
  using assms
  by (auto simp: GetColors_mem_def detached_def make_mem_def copy_mem_def Let_def)

lemma Count_mem_sim:
  assumes "wf_mem m"
  shows "fst (Count_mem m) = fst (Count (seq_of m))"
  using assms by (simp add: Count_mem_def Count_def seq_of_def elems_def wf_mem_def)

lemma mem_step_sim:
  assumes "wf_mem m"
  shows "seq_of (mem_step slack m op) = store_step (seq_of m) op \<and> wf_mem (mem_step slack m op)"
proof (cases op)
  case (Add color)
  with AddColor_mem_sim [OF assms] show ?thesis by simp
next
  case Get
  with GetColors_mem_result [OF assms] show ?thesis by (simp add: GetColors_def Let_def)
next
  case (Remove color)
  with RemoveColor_mem_sim [OF assms] show ?thesis by simp
next
  case Clear
  with ClearColors_mem_sim [OF assms] show ?thesis by simp
next
  case CountOp
  with assms show ?thesis by (simp add: Count_mem_def Count_def)
qed

lemma mem_step_frame:
  assumes "wf_mem m" "detached m sl"
  shows "detached (mem_step slack m op) sl \<and> cells (mem_step slack m op) (base sl) = cells m (base sl)"
proof (cases op)
  case (Add color)
  with AddColor_mem_frame [OF assms] show ?thesis by simp
next
  case Get
  with GetColors_mem_frame [OF assms(2)] show ?thesis by simp
next
  case (Remove color)
  with RemoveColor_mem_frame [OF assms] show ?thesis by simp
next
  case Clear
  with ClearColors_mem_frame [OF assms(2)] show ?thesis by simp
next
  case CountOp
  with assms show ?thesis by (simp add: Count_mem_def)
qed

lemma foldl_mem_step_sim:
  "wf_mem m \<Longrightarrow>
     seq_of (foldl (mem_step slack) m ops) = foldl store_step (seq_of m) ops \<and>
     wf_mem (foldl (mem_step slack) m ops)"
proof (induction ops arbitrary: m)
  case Nil
  then show ?case by simp
next
  case (Cons op ops)
  from mem_step_sim [OF Cons.prems, of slack op]
  have "seq_of (mem_step slack m op) = store_step (seq_of m) op" and "wf_mem (mem_step slack m op)"
    by simp_all
  with Cons.IH [of "mem_step slack m op"] show ?case by simp
qed

lemma mem_run_sim: "seq_of (mem_run slack ops) = store_run ops \<and> wf_mem (mem_run slack ops)"
  using foldl_mem_step_sim [OF wf_NewColorStorage_mem, of slack ops]
  by (simp add: mem_run_def store_run_def seq_of_NewColorStorage_mem)

lemma caller_write_detached:
  assumes "wf_mem m" "detached m sl"
  shows "wf_mem (caller_write m sl i v)"
    and "detached (caller_write m sl i v) sl"
    and "seq_of (caller_write m sl i v) = seq_of m"
    and "elems (caller_write m sl i v) sl =
           (if i < length (elems m sl) then (elems m sl)[i := v] else elems m sl)"
  using assms
  by (auto simp: caller_write_def wf_mem_def detached_def seq_of_def elems_def take_update_swap)

lemma events_apart:
  "wf_mem m \<Longrightarrow> detached m sl \<Longrightarrow>
     seq_of (foldl (event_step slack sl) m evs) = foldl store_step (seq_of m) (calls_of evs) \<and>
     elems (foldl (event_step slack sl) m evs) sl = assign_all (elems m sl) evs"
proof (induction evs arbitrary: m)
  case Nil
  then show ?case by simp
next
  case (Cons ev evs)
  show ?case
  proof (cases ev)
    case (Call op)
    from mem_step_sim [OF Cons.prems(1), of slack op]
    have s: "seq_of (mem_step slack m op) = store_step (seq_of m) op" and w: "wf_mem (mem_step slack m op)"
      by simp_all
    from mem_step_frame [OF Cons.prems, of slack op]
    have d: "detached (mem_step slack m op) sl"
      and c: "cells (mem_step slack m op) (base sl) = cells m (base sl)"
      by simp_all
    from c have "elems (mem_step slack m op) sl = elems m sl"
      by (simp add: elems_def)
    with Cons.IH [OF w d] s Call show ?thesis by simp
  next
    case (Assign i v)
    note cw = caller_write_detached [OF Cons.prems, of i v]
    from Cons.IH [OF cw(1) cw(2)] cw(3) cw(4) Assign show ?thesis by simp
  qed
qed

text \<open>
  A slice that is not a copy does change: the store's own slice of the moment, kept over
  a removal and an addition, shows other elements afterwards.
\<close>

lemma store_slice_is_shared:
  "elems (mem_run (\<lambda>n. n) [Add ''a'', Add ''b'', Add ''c''])
         (colors_mem (mem_run (\<lambda>n. n) [Add ''a'', Add ''b'', Add ''c''])) = [''a'', ''b'', ''c''] \<and>
   elems (mem_run (\<lambda>n. n) [Add ''a'', Add ''b'', Add ''c'', Remove ''a'', Add ''d''])
         (colors_mem (mem_run (\<lambda>n. n) [Add ''a'', Add ''b'', Add ''c''])) = [''b'', ''c'', ''d'']"
  by (simp add: mem_run_def NewColorStorage_mem_def make_mem_def AddColor_mem_def RemoveColor_mem_def
      append_mem_def elems_def write_at_def Let_def)

section \<open>Properties of the dispatcher\<close>

lemma handleInitialize_envelope:
  "JSONRPC (fst (handleInitialize s req)) = ''2.0'' \<and>
   ID (fst (handleInitialize s req)) = reqID req \<and>
   Result (fst (handleInitialize s req)) \<noteq> None \<and>
   Error (fst (handleInitialize s req)) = None"
  by (simp add: handleInitialize_def)

lemma handleToolsList_envelope:
  "JSONRPC (fst (handleToolsList ro s req)) = ''2.0'' \<and>
   ID (fst (handleToolsList ro s req)) = reqID req \<and>
   Result (fst (handleToolsList ro s req)) \<noteq> None \<and>
   Error (fst (handleToolsList ro s req)) = None"
  by (simp add: handleToolsList_def Let_def)

lemma handleAddColor_envelope:
  "JSONRPC (fst (handleAddColor s req args)) = ''2.0'' \<and>
   ID (fst (handleAddColor s req args)) = reqID req \<and>
   (Result (fst (handleAddColor s req args)) = None) \<noteq> (Error (fst (handleAddColor s req args)) = None)"
  by (simp add: handleAddColor_def Let_def split: prod.splits)

lemma handleRemoveColor_envelope:
  "JSONRPC (fst (handleRemoveColor s req args)) = ''2.0'' \<and>
   ID (fst (handleRemoveColor s req args)) = reqID req \<and>
   (Result (fst (handleRemoveColor s req args)) = None) \<noteq> (Error (fst (handleRemoveColor s req args)) = None)"
  by (simp add: handleRemoveColor_def Let_def split: prod.splits)

lemma handleGetColors_envelope:
  "JSONRPC (fst (handleGetColors s req args)) = ''2.0'' \<and>
   ID (fst (handleGetColors s req args)) = reqID req \<and>
   Result (fst (handleGetColors s req args)) \<noteq> None \<and>
   Error (fst (handleGetColors s req args)) = None"
  by (simp add: handleGetColors_def Let_def split: prod.splits)

lemma handleClearColors_envelope:
  "JSONRPC (fst (handleClearColors s req args)) = ''2.0'' \<and>
   ID (fst (handleClearColors s req args)) = reqID req \<and>
   Result (fst (handleClearColors s req args)) \<noteq> None \<and>
   Error (fst (handleClearColors s req args)) = None"
  by (simp add: handleClearColors_def Let_def split: prod.splits)

lemma handleToolsCall_envelope:
  "JSONRPC (fst (handleToolsCall s req)) = ''2.0'' \<and>
   ID (fst (handleToolsCall s req)) = reqID req \<and>
   (Result (fst (handleToolsCall s req)) = None) \<noteq> (Error (fst (handleToolsCall s req)) = None)"
  using handleAddColor_envelope handleRemoveColor_envelope handleGetColors_envelope handleClearColors_envelope
  by (simp add: handleToolsCall_def Let_def split: prod.splits)

lemma asObject_other: "(\<forall>m. v \<noteq> JObject m) \<Longrightarrow> asObject v = ([], False)"
  by (cases v) simp_all

lemma asString_other: "(\<forall>n. v \<noteq> JString n) \<Longrightarrow> asString v = ('''', False)"
  by (cases v) simp_all

lemma lookup_Some: "map_of m k = Some v \<Longrightarrow> lookup m k = v"
  by (simp add: lookup_def)

lemma lookup_no_string: "(\<forall>n. map_of m k \<noteq> Some (JString n)) \<Longrightarrow> asString (lookup m k) = ('''', False)"
  by (rule asString_other) (auto simp: lookup_def split: option.splits)

lemma handleToolsCall_not_object:
  "(\<forall>m. Params req \<noteq> JObject m) \<Longrightarrow>
     handleToolsCall s req = (error_response req (- 32602) ''Invalid params'', s)"
  by (simp add: handleToolsCall_def asObject_other error_response_def)

lemma handleToolsCall_no_name:
  "Params req = JObject params \<Longrightarrow> (\<forall>n. map_of params ''name'' \<noteq> Some (JString n)) \<Longrightarrow>
     handleToolsCall s req = (error_response req (- 32602) ''Tool name required'', s)"
  by (simp add: handleToolsCall_def lookup_no_string error_response_def)

lemma handleToolsCall_named:
  "Params req = JObject params \<Longrightarrow> map_of params ''name'' = Some (JString name) \<Longrightarrow>
     handleToolsCall s req =
       (let arguments = fst (asObject (lookup params ''arguments''))
        in if name = ''add_color'' then handleAddColor s req arguments
           else if name = ''get_colors'' then handleGetColors s req arguments
           else if name = ''remove_color'' then handleRemoveColor s req arguments
           else if name = ''clear_colors'' then handleClearColors s req arguments
           else (error_response req (- 32601) ''Tool not found'', s))"
  by (simp add: handleToolsCall_def lookup_Some error_response_def Let_def split: prod.splits)

lemma color_argument_valid:
  "map_of params ''arguments'' = Some (JObject arguments) \<Longrightarrow>
   map_of arguments ''color'' = Some (JString color) \<Longrightarrow>
     asString (lookup (fst (asObject (lookup params ''arguments''))) ''color'') = (color, True)"
  by (simp add: lookup_Some)

lemma color_argument_invalid:
  assumes "\<forall>a c. map_of params ''arguments'' = Some (JObject a) \<and> map_of a ''color'' = Some (JString c)
             \<longrightarrow> c = []"
  shows "\<not> snd (asString (lookup (fst (asObject (lookup params ''arguments''))) ''color'')) \<or>
         fst (asString (lookup (fst (asObject (lookup params ''arguments''))) ''color'')) = []"
proof (cases "lookup params ''arguments''")
  case (JObject a)
  then have args: "map_of params ''arguments'' = Some (JObject a)"
    by (auto simp: lookup_def split: option.splits)
  show ?thesis
  proof (cases "lookup a ''color''")
    case (JString c)
    then have "map_of a ''color'' = Some (JString c)"
      by (auto simp: lookup_def split: option.splits)
    with args assms have "c = []" by blast
    with JObject JString show ?thesis by simp
  qed (simp_all add: JObject)
qed (simp_all add: lookup_def)

lemma handleAddColor_valid:
  "asString (lookup args ''color'') = (color, True) \<Longrightarrow> color \<noteq> [] \<Longrightarrow>
     handleAddColor s req args =
       (text_result req (fst (fst (AddColor (storage s) color))),
        s\<lparr>storage := snd (AddColor (storage s) color)\<rparr>)"
  by (simp add: handleAddColor_def text_result_def split: prod.splits)

lemma handleAddColor_invalid:
  "\<not> snd (asString (lookup args ''color'')) \<or> fst (asString (lookup args ''color'')) = [] \<Longrightarrow>
     handleAddColor s req args = (error_response req (- 32602) ''Color parameter required'', s)"
  by (auto simp: handleAddColor_def error_response_def split: prod.splits)

lemma handleRemoveColor_valid:
  "asString (lookup args ''color'') = (color, True) \<Longrightarrow> color \<noteq> [] \<Longrightarrow>
     handleRemoveColor s req args =
       (text_result req (fst (fst (RemoveColor (storage s) color))),
        s\<lparr>storage := snd (RemoveColor (storage s) color)\<rparr>)"
  by (simp add: handleRemoveColor_def text_result_def split: prod.splits)

lemma handleRemoveColor_invalid:
  "\<not> snd (asString (lookup args ''color'')) \<or> fst (asString (lookup args ''color'')) = [] \<Longrightarrow>
     handleRemoveColor s req args = (error_response req (- 32602) ''Color parameter required'', s)"
  by (auto simp: handleRemoveColor_def error_response_def split: prod.splits)

lemma handleAddColor_error:
  "Error (fst (handleAddColor s req args)) \<noteq> None \<Longrightarrow>
     handleAddColor s' req args = (error_response req (- 32602) ''Color parameter required'', s')"
  by (auto simp: handleAddColor_def error_response_def split: prod.splits if_splits)

lemma handleRemoveColor_error:
  "Error (fst (handleRemoveColor s req args)) \<noteq> None \<Longrightarrow>
     handleRemoveColor s' req args = (error_response req (- 32602) ''Color parameter required'', s')"
  by (auto simp: handleRemoveColor_def error_response_def split: prod.splits if_splits)

lemma handleGetColors_no_error: "Error (fst (handleGetColors s req args)) = None"
  by (simp add: handleGetColors_def split: prod.splits)

lemma handleClearColors_no_error: "Error (fst (handleClearColors s req args)) = None"
  by (simp add: handleClearColors_def split: prod.splits)

lemma handleToolsCall_error:
  assumes "Error (fst (handleToolsCall s req)) \<noteq> None"
  shows "\<exists>code msg. \<forall>s'. handleToolsCall s' req = (error_response req code msg, s')"
proof (cases "\<exists>params. Params req = JObject params")
  case False
  then show ?thesis
    by (metis handleToolsCall_not_object)
next
  case True
  then obtain params where p: "Params req = JObject params" ..
  show ?thesis
  proof (cases "\<exists>name. map_of params ''name'' = Some (JString name)")
    case False
    then show ?thesis
      by (metis handleToolsCall_no_name [OF p])
  next
    case True
    then obtain name where n: "map_of params ''name'' = Some (JString name)" ..
    note named = handleToolsCall_named [OF p n]
    consider "name = ''add_color''" | "name = ''get_colors''" | "name = ''remove_color''"
      | "name = ''clear_colors''"
      | "name \<notin> {''add_color'', ''get_colors'', ''remove_color'', ''clear_colors''}"
      by blast
    then show ?thesis
    proof cases
      case 1
      with assms have "Error (fst (handleAddColor s req (fst (asObject (lookup params ''arguments''))))) \<noteq> None"
        by (simp add: named)
      from handleAddColor_error [OF this] 1 have
        "\<forall>s'. handleToolsCall s' req = (error_response req (- 32602) ''Color parameter required'', s')"
        by (simp add: named)
      then show ?thesis by blast
    next
      case 2
      with assms show ?thesis
        by (simp add: named handleGetColors_no_error)
    next
      case 3
      with assms have "Error (fst (handleRemoveColor s req (fst (asObject (lookup params ''arguments''))))) \<noteq> None"
        by (simp add: named)
      from handleRemoveColor_error [OF this] 3 have
        "\<forall>s'. handleToolsCall s' req = (error_response req (- 32602) ''Color parameter required'', s')"
        by (simp add: named)
      then show ?thesis by blast
    next
      case 4
      with assms show ?thesis
        by (simp add: named handleClearColors_no_error)
    next
      case 5
      then have "\<forall>s'. handleToolsCall s' req = (error_response req (- 32601) ''Tool not found'', s')"
        by (simp add: named)
      then show ?thesis by blast
    qed
  qed
qed

lemma HandleRequest_error:
  assumes "Error (fst (HandleRequest range_order s req)) \<noteq> None"
  shows "\<exists>code msg. \<forall>s'. HandleRequest range_order s' req = (error_response req code msg, s')"
proof -
  consider "Method req = ''initialize''" | "Method req = ''tools/list''" | "Method req = ''tools/call''"
    | "Method req \<notin> {''initialize'', ''tools/list'', ''tools/call''}"
    by blast
  then show ?thesis
  proof cases
    case 1
    with assms show ?thesis
      by (simp add: HandleRequest_def handleInitialize_def)
  next
    case 2
    with assms show ?thesis
      by (simp add: HandleRequest_def handleToolsList_def Let_def)
  next
    case 3
    with assms have "Error (fst (handleToolsCall s req)) \<noteq> None"
      by (simp add: HandleRequest_def)
    from handleToolsCall_error [OF this] 3 show ?thesis
      by (simp add: HandleRequest_def)
  next
    case 4
    then have "\<forall>s'. HandleRequest range_order s' req = (error_response req (- 32601) ''Method not found'', s')"
      by (simp add: HandleRequest_def error_response_def)
    then show ?thesis by blast
  qed
qed

lemma storage_NewServer: "storage NewServer = NewColorStorage"
  by (simp add: NewServer_def registerTools_def RegisterTool_def)

section \<open>Claims about the color store\<close>

text \<open>
  Claim C1. The store never holds two equal entries. After any run of operations from
  the empty store: the colors are pairwise distinct; adding a color that is present
  reports \<open>False\<close> with the "already in your favorites" message and leaves the store, and
  so its count, as it was; adding a color that is absent reports \<open>True\<close> and puts the
  color at the end of the sequence.
\<close>

theorem AddColor_no_duplicates:
  "distinct (colors (store_run ops)) \<and>
   (color \<in> set (colors (store_run ops)) \<longrightarrow>
      AddColor (store_run ops) color =
        ((''Color '' @ [quote] @ color @ [quote] @ '' is already in your favorites'', False),
         store_run ops) \<and>
      fst (Count (snd (AddColor (store_run ops) color))) = fst (Count (store_run ops))) \<and>
   (color \<notin> set (colors (store_run ops)) \<longrightarrow>
      AddColor (store_run ops) color =
        ((''Successfully added '' @ [quote] @ color @ [quote] @ '' to your favorite colors!'', True),
         (store_run ops)\<lparr>colors := colors (store_run ops) @ [color]\<rparr>)) \<and>
   distinct (colors (store_step (store_run ops) op))"
proof (intro conjI impI)
  show "distinct (colors (store_run ops))"
    by (rule store_run_distinct)
  then show "distinct (colors (store_step (store_run ops) op))"
    by (rule store_step_distinct)
next
  assume present: "color \<in> set (colors (store_run ops))"
  then show "AddColor (store_run ops) color =
        ((''Color '' @ [quote] @ color @ [quote] @ '' is already in your favorites'', False),
         store_run ops)"
    by (rule AddColor_present)
  then show "fst (Count (snd (AddColor (store_run ops) color))) = fst (Count (store_run ops))"
    by simp
next
  assume "color \<notin> set (colors (store_run ops))"
  then show "AddColor (store_run ops) color =
        ((''Successfully added '' @ [quote] @ color @ [quote] @ '' to your favorite colors!'', True),
         (store_run ops)\<lparr>colors := colors (store_run ops) @ [color]\<rparr>)"
    by (rule AddColor_absent)
qed

text \<open>
  The run adds red, blue and red again, then removes red: the store holds blue alone.
  Adding blue is refused; adding green appends it.
\<close>

theorem AddColor_no_duplicates_witness:
  "store_run [Add ''red'', Add ''blue'', Add ''red'', Remove ''red''] = \<lparr>colors = [''blue'']\<rparr> \<and>
   ''blue'' \<in> set (colors (store_run [Add ''red'', Add ''blue'', Add ''red'', Remove ''red''])) \<and>
   AddColor \<lparr>colors = [''blue'']\<rparr> ''blue'' =
     ((''Color '' @ [quote] @ ''blue'' @ [quote] @ '' is already in your favorites'', False),
      \<lparr>colors = [''blue'']\<rparr>) \<and>
   ''green'' \<notin> set (colors (store_run [Add ''red'', Add ''blue'', Add ''red'', Remove ''red''])) \<and>
   AddColor \<lparr>colors = [''blue'']\<rparr> ''green'' =
     ((''Successfully added '' @ [quote] @ ''green'' @ [quote] @ '' to your favorite colors!'', True),
      \<lparr>colors = [''blue'', ''green'']\<rparr>)"
proof -
  have run: "store_run [Add ''red'', Add ''blue'', Add ''red'', Remove ''red''] = \<lparr>colors = [''blue'']\<rparr>"
    by (simp add: store_run_def NewColorStorage_def AddColor_def RemoveColor_def)
  show ?thesis
    using AddColor_no_duplicates [of "[Add ''red'', Add ''blue'', Add ''red'', Remove ''red'']" "''blue''" Get]
      AddColor_no_duplicates [of "[Add ''red'', Add ''blue'', Add ''red'', Remove ''red'']" "''green''" Get]
    by (simp add: run)
qed

text \<open>
  Claim C6. \<open>GetColors\<close> returns the stored sequence as it is at the call, leaves the
  store as it was, and returns the text the specification describes: the sentence
  "You have no favorite colors yet." for an empty store, otherwise the header with the
  total count followed by one numbered line per color, numbered from 1, in the order of
  insertion. Over the backing arrays, after any run of operations: the returned slice
  shows the stored sequence, and it is a copy. Whatever the store's methods and the
  holder of the slice do afterwards, in any order, the store goes on as if the
  assignments to the slice had not happened, and the slice shows the sequence of the
  call changed by those assignments only.
\<close>

theorem GetColors_snapshot_and_listing:
  "GetColors cs = ((colors cs, spec_listing (colors cs)), cs) \<and>
   spec_listing [] = ''You have no favorite colors yet.'' \<and>
   (let m = mem_run slack ops;
        snapshot = fst (fst (GetColors_mem m));
        text = snd (fst (GetColors_mem m));
        m' = snd (GetColors_mem m)
    in seq_of m = store_run ops \<and>
       elems m' snapshot = colors (store_run ops) \<and>
       text = spec_listing (colors (store_run ops)) \<and>
       seq_of m' = store_run ops \<and>
       seq_of (foldl (event_step slack snapshot) m' evs) =
         foldl store_step (store_run ops) (calls_of evs) \<and>
       elems (foldl (event_step slack snapshot) m' evs) snapshot =
         assign_all (colors (store_run ops)) evs)"
proof -
  have list_level: "GetColors cs = ((colors cs, spec_listing (colors cs)), cs)" for cs
    by (simp add: GetColors_def spec_listing_def GetColors_loop_eq Let_def)
  let ?m = "mem_run slack ops"
  let ?snapshot = "fst (fst (GetColors_mem ?m))"
  let ?m' = "snd (GetColors_mem ?m)"
  from mem_run_sim [of slack ops] have sq: "seq_of ?m = store_run ops" and wf: "wf_mem ?m"
    by simp_all
  note get = GetColors_mem_result [OF wf]
  have el: "elems ?m' ?snapshot = colors (store_run ops)"
    using get(1) sq by simp
  have tx: "snd (fst (GetColors_mem ?m)) = spec_listing (colors (store_run ops))"
    using get(2) sq by (simp add: list_level)
  have sq': "seq_of ?m' = store_run ops"
    using get(3) sq by simp
  from events_apart [OF get(4) get(5), of slack evs]
  have "seq_of (foldl (event_step slack ?snapshot) ?m' evs) =
          foldl store_step (store_run ops) (calls_of evs)"
    and "elems (foldl (event_step slack ?snapshot) ?m' evs) ?snapshot =
          assign_all (colors (store_run ops)) evs"
    by (simp_all add: sq' el)
  with sq el tx sq' list_level [of cs] show ?thesis
    by (simp add: Let_def spec_listing_def)
qed

text \<open>
  The store red, blue and its listing. Over the arrays: after the two additions and the
  call of \<open>GetColors\<close>, red is removed from the store, the holder of the returned slice
  assigns pink to its first element, and green is added to the store. The store then
  holds blue, green; the returned slice shows pink, blue.
\<close>

theorem GetColors_snapshot_and_listing_witness:
  "GetColors \<lparr>colors = [''red'', ''blue'']\<rparr> =
     (([''red'', ''blue''],
       ''Your favorite colors (2 total):'' @ [newline] @ ''1. red'' @ [newline] @ ''2. blue'' @ [newline]),
      \<lparr>colors = [''red'', ''blue'']\<rparr>) \<and>
   (let m = mem_run (\<lambda>n. n) [Add ''red'', Add ''blue''];
        snapshot = fst (fst (GetColors_mem m));
        m' = snd (GetColors_mem m);
        evs = [Call (Remove ''red''), Assign 0 ''pink'', Call (Add ''green'')]
    in elems m' snapshot = [''red'', ''blue''] \<and>
       seq_of (foldl (event_step (\<lambda>n. n) snapshot) m' evs) = \<lparr>colors = [''blue'', ''green'']\<rparr> \<and>
       elems (foldl (event_step (\<lambda>n. n) snapshot) m' evs) snapshot = [''pink'', ''blue''])"
proof -
  have run: "store_run [Add ''red'', Add ''blue''] = \<lparr>colors = [''red'', ''blue'']\<rparr>"
    by (simp add: store_run_def NewColorStorage_def AddColor_def)
  have two: "itoa (Suc (Suc 0)) = ''2''"
    by (simp add: numeral_2_eq_2 [symmetric] itoa.simps digit_def)
  have one: "itoa (Suc 0) = ''1''"
    by (simp add: itoa.simps [of "Suc 0"] digit_def)
  show ?thesis
    using GetColors_snapshot_and_listing
      [of "\<lparr>colors = [''red'', ''blue'']\<rparr>" "\<lambda>n. n" "[Add ''red'', Add ''blue'']"
          "[Call (Remove ''red''), Assign 0 ''pink'', Call (Add ''green'')]"]
    by (simp add: Let_def run spec_listing_def numbered_line_def one two AddColor_def RemoveColor_def)
qed

text \<open>
  Claim C8. \<open>ClearColors\<close> on a store of \<open>N\<close> colors returns \<open>N\<close> with the message that
  states \<open>N\<close>, and the count right after is 0; on the empty store it returns 0 and the
  store stays empty.
\<close>

theorem ClearColors_reports_previous_count:
  "ClearColors cs =
     ((''Successfully cleared '' @ itoa (length (colors cs)) @ '' favorite colors!'',
       fst (Count cs)),
      cs\<lparr>colors := []\<rparr>) \<and>
   fst (Count (snd (ClearColors cs))) = 0 \<and>
   snd (fst (ClearColors NewColorStorage)) = 0 \<and>
   snd (ClearColors NewColorStorage) = NewColorStorage"
  by (simp add: ClearColors_def Count_def NewColorStorage_def Let_def)


text \<open>Clearing a store of three colors.\<close>

theorem ClearColors_reports_previous_count_witness:
  "ClearColors \<lparr>colors = [''red'', ''green'', ''blue'']\<rparr> =
     ((''Successfully cleared 3 favorite colors!'', 3), \<lparr>colors = []\<rparr>)"
proof -
  have three: "itoa (Suc (Suc (Suc 0))) = ''3''"
    by (simp add: numeral_3_eq_3 [symmetric] itoa.simps digit_def)
  show ?thesis
    using ClearColors_reports_previous_count [of "\<lparr>colors = [''red'', ''green'', ''blue'']\<rparr>"]
    by (simp add: three Count_def)
qed

text \<open>
  Claim C7. Removing a color that is present deletes its first occurrence, keeps every
  other element in its place relative to the others, and reports \<open>True\<close>; removing a
  color that is absent reports \<open>False\<close> and leaves the store as it was. On a store built
  by a run of operations that holds the color, two removals in a row report \<open>True\<close> and
  then \<open>False\<close>, and the count after both is the count before minus one.
\<close>

theorem RemoveColor_first_match:
  "(colors cs = before @ color # after \<and> color \<notin> set before \<longrightarrow>
      RemoveColor cs color =
        ((''Successfully removed '' @ [quote] @ color @ [quote] @ '' from your favorite colors!'', True),
         cs\<lparr>colors := before @ after\<rparr>)) \<and>
   (color \<in> set (colors cs) \<longrightarrow>
      snd (fst (RemoveColor cs color)) = True \<and>
      colors (snd (RemoveColor cs color)) = remove1 color (colors cs)) \<and>
   (color \<notin> set (colors cs) \<longrightarrow>
      RemoveColor cs color =
        ((''Color '' @ [quote] @ color @ [quote] @ '' was not found in your favorites'', False), cs)) \<and>
   (color \<in> set (colors (store_run ops)) \<longrightarrow>
      snd (fst (RemoveColor (store_run ops) color)) = True \<and>
      snd (fst (RemoveColor (snd (RemoveColor (store_run ops) color)) color)) = False \<and>
      fst (Count (snd (RemoveColor (snd (RemoveColor (store_run ops) color)) color))) + 1 =
        fst (Count (store_run ops)))"
proof (intro conjI impI)
  assume "colors cs = before @ color # after \<and> color \<notin> set before"
  then show "RemoveColor cs color =
        ((''Successfully removed '' @ [quote] @ color @ [quote] @ '' from your favorite colors!'', True),
         cs\<lparr>colors := before @ after\<rparr>)"
    by (simp add: RemoveColor_split)
next
  assume "color \<in> set (colors cs)"
  then obtain ys zs where "colors cs = ys @ color # zs" "color \<notin> set ys"
    by (meson split_list_first)
  then show "snd (fst (RemoveColor cs color)) = True"
    by (simp add: RemoveColor_split)
next
  show "colors (snd (RemoveColor cs color)) = remove1 color (colors cs)"
    by (rule RemoveColor_colors)
next
  assume "color \<notin> set (colors cs)"
  then show "RemoveColor cs color =
        ((''Color '' @ [quote] @ color @ [quote] @ '' was not found in your favorites'', False), cs)"
    by (rule RemoveColor_absent)
next
  let ?s = "store_run ops"
  assume present: "color \<in> set (colors ?s)"
  then obtain ys zs where sp: "colors ?s = ys @ color # zs" "color \<notin> set ys"
    by (meson split_list_first)
  have "distinct (colors ?s)"
    by (rule store_run_distinct)
  with sp have gone: "color \<notin> set (ys @ zs)"
    by auto
  have first: "RemoveColor ?s color =
      ((''Successfully removed '' @ [quote] @ color @ [quote] @ '' from your favorite colors!'', True),
       ?s\<lparr>colors := ys @ zs\<rparr>)"
    by (rule RemoveColor_split [OF sp])
  have second: "RemoveColor (?s\<lparr>colors := ys @ zs\<rparr>) color =
      ((''Color '' @ [quote] @ color @ [quote] @ '' was not found in your favorites'', False),
       ?s\<lparr>colors := ys @ zs\<rparr>)"
    using gone by (simp add: RemoveColor_absent)
  show "snd (fst (RemoveColor ?s color)) = True"
    by (simp add: first)
  show "snd (fst (RemoveColor (snd (RemoveColor ?s color)) color)) = False"
    by (simp add: first second)
  show "fst (Count (snd (RemoveColor (snd (RemoveColor ?s color)) color))) + 1 = fst (Count ?s)"
    by (simp add: first second Count_def sp)
qed

text \<open>
  On the store red, green, blue (built by three additions), removing green leaves red,
  blue; removing green again finds nothing; removing pink finds nothing.
\<close>

theorem RemoveColor_first_match_witness:
  "store_run [Add ''red'', Add ''green'', Add ''blue''] = \<lparr>colors = [''red'', ''green'', ''blue'']\<rparr> \<and>
   RemoveColor \<lparr>colors = [''red'', ''green'', ''blue'']\<rparr> ''green'' =
     ((''Successfully removed '' @ [quote] @ ''green'' @ [quote] @ '' from your favorite colors!'', True),
      \<lparr>colors = [''red'', ''blue'']\<rparr>) \<and>
   snd (fst (RemoveColor \<lparr>colors = [''red'', ''blue'']\<rparr> ''green'')) = False \<and>
   fst (Count (snd (RemoveColor \<lparr>colors = [''red'', ''blue'']\<rparr> ''green''))) + 1 =
       fst (Count \<lparr>colors = [''red'', ''green'', ''blue'']\<rparr>) \<and>
   RemoveColor \<lparr>colors = [''red'', ''green'', ''blue'']\<rparr> ''pink'' =
     ((''Color '' @ [quote] @ ''pink'' @ [quote] @ '' was not found in your favorites'', False),
      \<lparr>colors = [''red'', ''green'', ''blue'']\<rparr>)"
proof -
  have run: "store_run [Add ''red'', Add ''green'', Add ''blue''] = \<lparr>colors = [''red'', ''green'', ''blue'']\<rparr>"
    by (simp add: store_run_def NewColorStorage_def AddColor_def)
  have present:
    "RemoveColor \<lparr>colors = [''red'', ''green'', ''blue'']\<rparr> ''green'' =
       ((''Successfully removed '' @ [quote] @ ''green'' @ [quote] @ '' from your favorite colors!'', True),
        \<lparr>colors = [''red'', ''blue'']\<rparr>)"
    using RemoveColor_first_match
      [of "\<lparr>colors = [''red'', ''green'', ''blue'']\<rparr>" "[''red'']" "''green''" "[''blue'']"
          "[Add ''red'', Add ''green'', Add ''blue'']"]
    by simp
  have absent:
    "RemoveColor \<lparr>colors = [''red'', ''green'', ''blue'']\<rparr> ''pink'' =
       ((''Color '' @ [quote] @ ''pink'' @ [quote] @ '' was not found in your favorites'', False),
        \<lparr>colors = [''red'', ''green'', ''blue'']\<rparr>)"
    using RemoveColor_first_match
      [of "\<lparr>colors = [''red'', ''green'', ''blue'']\<rparr>" "[]" "''pink''" "[]" "[]"]
    by simp
  have twice:
    "snd (fst (RemoveColor \<lparr>colors = [''red'', ''blue'']\<rparr> ''green'')) = False \<and>
     fst (Count (snd (RemoveColor \<lparr>colors = [''red'', ''blue'']\<rparr> ''green''))) + 1 =
       fst (Count \<lparr>colors = [''red'', ''green'', ''blue'']\<rparr>)"
    using RemoveColor_first_match
      [of "\<lparr>colors = [''red'', ''green'', ''blue'']\<rparr>" "[''red'']" "''green''" "[''blue'']"
          "[Add ''red'', Add ''green'', Add ''blue'']"]
    by (simp add: run present absent)
  show ?thesis
    using run present absent twice by simp
qed

section \<open>Claims about the dispatcher\<close>

text \<open>
  Claim C2. For every request, whatever the server holds, the response carries the
  version tag "2.0" and the identifier of the request as it came (the nil identifier of
  a request without one stays nil, and a nil identifier is left out of the encoded
  response), and exactly one of its result and its error is present.
\<close>

theorem HandleRequest_envelope:
  "JSONRPC (fst (HandleRequest range_order s req)) = ''2.0'' \<and>
   ID (fst (HandleRequest range_order s req)) = reqID req \<and>
   (Result (fst (HandleRequest range_order s req)) = None) \<noteq>
     (Error (fst (HandleRequest range_order s req)) = None)"
  using handleInitialize_envelope [of s req] handleToolsList_envelope [of range_order s req]
    handleToolsCall_envelope [of s req]
  by (simp add: HandleRequest_def)

text \<open>A request with the identifier \<open>q1\<close>; a request without identifier.\<close>

theorem HandleRequest_envelope_witness:
  "JSONRPC (fst (HandleRequest id NewServer
      \<lparr>reqJSONRPC = ''2.0'', reqID = JString ''q1'', Method = ''tools/list'', Params = JNull\<rparr>)) = ''2.0'' \<and>
   ID (fst (HandleRequest id NewServer
      \<lparr>reqJSONRPC = ''2.0'', reqID = JString ''q1'', Method = ''tools/list'', Params = JNull\<rparr>)) = JString ''q1'' \<and>
   ID (fst (HandleRequest id NewServer
      \<lparr>reqJSONRPC = ''2.0'', reqID = JNull, Method = ''initialize'', Params = JNull\<rparr>)) = JNull"
  using HandleRequest_envelope
      [of id NewServer "\<lparr>reqJSONRPC = ''2.0'', reqID = JString ''q1'', Method = ''tools/list'', Params = JNull\<rparr>"]
    HandleRequest_envelope
      [of id NewServer "\<lparr>reqJSONRPC = ''2.0'', reqID = JNull, Method = ''initialize'', Params = JNull\<rparr>"]
  by simp

text \<open>
  Claim C3. A \<^verbatim>\<open>tools/call\<close> request whose params are not an object, or whose params object
  has no string under \<open>name\<close>, gets the error response with code -32602. The response is
  a term in which the server does not occur and the server is returned as it was: no
  tool handler has run and the color store has not been read.
\<close>

theorem tools_call_invalid_params:
  "(Method req = ''tools/call'' \<and> (\<forall>m. Params req \<noteq> JObject m) \<longrightarrow>
      HandleRequest range_order s req = (error_response req (- 32602) ''Invalid params'', s)) \<and>
   (Method req = ''tools/call'' \<and> Params req = JObject params \<and>
      (\<forall>n. map_of params ''name'' \<noteq> Some (JString n)) \<longrightarrow>
      HandleRequest range_order s req = (error_response req (- 32602) ''Tool name required'', s))"
  by (simp add: HandleRequest_def handleToolsCall_not_object handleToolsCall_no_name)

text \<open>Params that are a string; params whose \<open>name\<close> is a number.\<close>

theorem tools_call_invalid_params_witness:
  "HandleRequest id NewServer
     \<lparr>reqJSONRPC = ''2.0'', reqID = JNumber 7, Method = ''tools/call'', Params = JString ''add_color''\<rparr> =
     (\<lparr>JSONRPC = ''2.0'', ID = JNumber 7, Result = None,
       Error = Some \<lparr>Code = - 32602, Message = ''Invalid params'', Data = JNull\<rparr>\<rparr>, NewServer) \<and>
   HandleRequest id NewServer
     \<lparr>reqJSONRPC = ''2.0'', reqID = JNumber 8, Method = ''tools/call'',
      Params = JObject [(''name'', JNumber 3), (''arguments'', JObject [(''color'', JString ''red'')])]\<rparr> =
     (\<lparr>JSONRPC = ''2.0'', ID = JNumber 8, Result = None,
       Error = Some \<lparr>Code = - 32602, Message = ''Tool name required'', Data = JNull\<rparr>\<rparr>, NewServer)"
  using tools_call_invalid_params
      [of "\<lparr>reqJSONRPC = ''2.0'', reqID = JNumber 7, Method = ''tools/call'', Params = JString ''add_color''\<rparr>"
          id NewServer "[]"]
    tools_call_invalid_params
      [of "\<lparr>reqJSONRPC = ''2.0'', reqID = JNumber 8, Method = ''tools/call'',
            Params = JObject [(''name'', JNumber 3), (''arguments'', JObject [(''color'', JString ''red'')])]\<rparr>"
          id NewServer "[(''name'', JNumber 3), (''arguments'', JObject [(''color'', JString ''red'')])]"]
  by (simp add: error_response_def)

text \<open>
  Claim C4. For a \<^verbatim>\<open>tools/call\<close> request that names \<open>add_color\<close> or \<open>remove_color\<close>: when
  there is no non-empty string at \<open>arguments.color\<close> (no \<open>arguments\<close> object, no \<open>color\<close>
  entry, a value that is not a string, or the empty string), the response is the error
  with code -32602 and the server is as it was; when there is one, the response is the
  result with a single text block holding the message that the store's \<open>AddColor\<close> or
  \<open>RemoveColor\<close> returns, and the server holds the store that the operation leaves.
\<close>

theorem color_tools_argument:
  "(Method req = ''tools/call'' \<and> Params req = JObject params \<and>
      map_of params ''name'' = Some (JString ''add_color'') \<and>
      (\<forall>a c. map_of params ''arguments'' = Some (JObject a) \<and> map_of a ''color'' = Some (JString c)
         \<longrightarrow> c = '''') \<longrightarrow>
      HandleRequest range_order s req = (error_response req (- 32602) ''Color parameter required'', s)) \<and>
   (Method req = ''tools/call'' \<and> Params req = JObject params \<and>
      map_of params ''name'' = Some (JString ''remove_color'') \<and>
      (\<forall>a c. map_of params ''arguments'' = Some (JObject a) \<and> map_of a ''color'' = Some (JString c)
         \<longrightarrow> c = '''') \<longrightarrow>
      HandleRequest range_order s req = (error_response req (- 32602) ''Color parameter required'', s)) \<and>
   (Method req = ''tools/call'' \<and> Params req = JObject params \<and>
      map_of params ''name'' = Some (JString ''add_color'') \<and>
      map_of params ''arguments'' = Some (JObject arguments) \<and>
      map_of arguments ''color'' = Some (JString color) \<and> color \<noteq> '''' \<longrightarrow>
      HandleRequest range_order s req =
        (text_result req (fst (fst (AddColor (storage s) color))),
         s\<lparr>storage := snd (AddColor (storage s) color)\<rparr>)) \<and>
   (Method req = ''tools/call'' \<and> Params req = JObject params \<and>
      map_of params ''name'' = Some (JString ''remove_color'') \<and>
      map_of params ''arguments'' = Some (JObject arguments) \<and>
      map_of arguments ''color'' = Some (JString color) \<and> color \<noteq> '''' \<longrightarrow>
      HandleRequest range_order s req =
        (text_result req (fst (fst (RemoveColor (storage s) color))),
         s\<lparr>storage := snd (RemoveColor (storage s) color)\<rparr>))"
proof (intro conjI impI)
  assume h: "Method req = ''tools/call'' \<and> Params req = JObject params \<and>
      map_of params ''name'' = Some (JString ''add_color'') \<and>
      (\<forall>a c. map_of params ''arguments'' = Some (JObject a) \<and> map_of a ''color'' = Some (JString c)
         \<longrightarrow> c = '''')"
  then have "handleToolsCall s req = handleAddColor s req (fst (asObject (lookup params ''arguments'')))"
    by (simp add: handleToolsCall_named)
  moreover from h have "handleAddColor s req (fst (asObject (lookup params ''arguments''))) =
      (error_response req (- 32602) ''Color parameter required'', s)"
    by (intro handleAddColor_invalid color_argument_invalid) blast
  ultimately show "HandleRequest range_order s req = (error_response req (- 32602) ''Color parameter required'', s)"
    using h by (simp add: HandleRequest_def)
next
  assume h: "Method req = ''tools/call'' \<and> Params req = JObject params \<and>
      map_of params ''name'' = Some (JString ''remove_color'') \<and>
      (\<forall>a c. map_of params ''arguments'' = Some (JObject a) \<and> map_of a ''color'' = Some (JString c)
         \<longrightarrow> c = '''')"
  then have "handleToolsCall s req = handleRemoveColor s req (fst (asObject (lookup params ''arguments'')))"
    by (simp add: handleToolsCall_named)
  moreover from h have "handleRemoveColor s req (fst (asObject (lookup params ''arguments''))) =
      (error_response req (- 32602) ''Color parameter required'', s)"
    by (intro handleRemoveColor_invalid color_argument_invalid) blast
  ultimately show "HandleRequest range_order s req = (error_response req (- 32602) ''Color parameter required'', s)"
    using h by (simp add: HandleRequest_def)
next
  assume h: "Method req = ''tools/call'' \<and> Params req = JObject params \<and>
      map_of params ''name'' = Some (JString ''add_color'') \<and>
      map_of params ''arguments'' = Some (JObject arguments) \<and>
      map_of arguments ''color'' = Some (JString color) \<and> color \<noteq> ''''"
  then have "handleToolsCall s req = handleAddColor s req (fst (asObject (lookup params ''arguments'')))"
    by (simp add: handleToolsCall_named)
  with h show "HandleRequest range_order s req =
        (text_result req (fst (fst (AddColor (storage s) color))),
         s\<lparr>storage := snd (AddColor (storage s) color)\<rparr>)"
    by (simp add: HandleRequest_def handleAddColor_valid color_argument_valid)
next
  assume h: "Method req = ''tools/call'' \<and> Params req = JObject params \<and>
      map_of params ''name'' = Some (JString ''remove_color'') \<and>
      map_of params ''arguments'' = Some (JObject arguments) \<and>
      map_of arguments ''color'' = Some (JString color) \<and> color \<noteq> ''''"
  then have "handleToolsCall s req = handleRemoveColor s req (fst (asObject (lookup params ''arguments'')))"
    by (simp add: handleToolsCall_named)
  with h show "HandleRequest range_order s req =
        (text_result req (fst (fst (RemoveColor (storage s) color))),
         s\<lparr>storage := snd (RemoveColor (storage s) color)\<rparr>)"
    by (simp add: HandleRequest_def handleRemoveColor_valid color_argument_valid)
qed

text \<open>
  On a new server: \<open>add_color\<close> without a color and \<open>remove_color\<close> with the empty color
  are refused; \<open>add_color\<close> of blue succeeds; on the server that then holds blue,
  \<open>remove_color\<close> of blue succeeds.
\<close>

theorem color_tools_argument_witness:
  "HandleRequest id NewServer
     \<lparr>reqJSONRPC = ''2.0'', reqID = JNumber 1, Method = ''tools/call'',
      Params = JObject [(''name'', JString ''add_color''), (''arguments'', JObject [])]\<rparr> =
     (\<lparr>JSONRPC = ''2.0'', ID = JNumber 1, Result = None,
       Error = Some \<lparr>Code = - 32602, Message = ''Color parameter required'', Data = JNull\<rparr>\<rparr>, NewServer) \<and>
   HandleRequest id NewServer
     \<lparr>reqJSONRPC = ''2.0'', reqID = JNumber 2, Method = ''tools/call'',
      Params = JObject [(''name'', JString ''remove_color''),
                        (''arguments'', JObject [(''color'', JString '''')])]\<rparr> =
     (\<lparr>JSONRPC = ''2.0'', ID = JNumber 2, Result = None,
       Error = Some \<lparr>Code = - 32602, Message = ''Color parameter required'', Data = JNull\<rparr>\<rparr>, NewServer) \<and>
   HandleRequest id NewServer
     \<lparr>reqJSONRPC = ''2.0'', reqID = JNumber 3, Method = ''tools/call'',
      Params = JObject [(''name'', JString ''add_color''),
                        (''arguments'', JObject [(''color'', JString ''blue'')])]\<rparr> =
     (\<lparr>JSONRPC = ''2.0'', ID = JNumber 3,
       Result = Some [(''content'', VMaps [[(''type'', JString ''text''),
         (''text'', JString (''Successfully added '' @ [quote] @ ''blue'' @ [quote] @ '' to your favorite colors!''))]])],
       Error = None\<rparr>,
      NewServer\<lparr>storage := \<lparr>colors = [''blue'']\<rparr>\<rparr>) \<and>
   HandleRequest id (NewServer\<lparr>storage := \<lparr>colors = [''blue'']\<rparr>\<rparr>)
     \<lparr>reqJSONRPC = ''2.0'', reqID = JNumber 4, Method = ''tools/call'',
      Params = JObject [(''name'', JString ''remove_color''),
                        (''arguments'', JObject [(''color'', JString ''blue'')])]\<rparr> =
     (\<lparr>JSONRPC = ''2.0'', ID = JNumber 4,
       Result = Some [(''content'', VMaps [[(''type'', JString ''text''),
         (''text'', JString (''Successfully removed '' @ [quote] @ ''blue'' @ [quote] @ '' from your favorite colors!''))]])],
       Error = None\<rparr>,
      NewServer\<lparr>storage := \<lparr>colors = []\<rparr>\<rparr>)"
proof (intro conjI)
  show "HandleRequest id NewServer
     \<lparr>reqJSONRPC = ''2.0'', reqID = JNumber 1, Method = ''tools/call'',
      Params = JObject [(''name'', JString ''add_color''), (''arguments'', JObject [])]\<rparr> =
     (\<lparr>JSONRPC = ''2.0'', ID = JNumber 1, Result = None,
       Error = Some \<lparr>Code = - 32602, Message = ''Color parameter required'', Data = JNull\<rparr>\<rparr>, NewServer)"
    using color_tools_argument
      [of "\<lparr>reqJSONRPC = ''2.0'', reqID = JNumber 1, Method = ''tools/call'',
            Params = JObject [(''name'', JString ''add_color''), (''arguments'', JObject [])]\<rparr>"
          "[(''name'', JString ''add_color''), (''arguments'', JObject [])]" id NewServer "[]" "[]"]
    by (simp add: error_response_def)
  show "HandleRequest id NewServer
     \<lparr>reqJSONRPC = ''2.0'', reqID = JNumber 2, Method = ''tools/call'',
      Params = JObject [(''name'', JString ''remove_color''),
                        (''arguments'', JObject [(''color'', JString '''')])]\<rparr> =
     (\<lparr>JSONRPC = ''2.0'', ID = JNumber 2, Result = None,
       Error = Some \<lparr>Code = - 32602, Message = ''Color parameter required'', Data = JNull\<rparr>\<rparr>, NewServer)"
    using color_tools_argument
      [of "\<lparr>reqJSONRPC = ''2.0'', reqID = JNumber 2, Method = ''tools/call'',
            Params = JObject [(''name'', JString ''remove_color''),
                              (''arguments'', JObject [(''color'', JString '''')])]\<rparr>"
          "[(''name'', JString ''remove_color''), (''arguments'', JObject [(''color'', JString '''')])]"
          id NewServer "[]" "[]"]
    by (simp add: error_response_def)
  show "HandleRequest id NewServer
     \<lparr>reqJSONRPC = ''2.0'', reqID = JNumber 3, Method = ''tools/call'',
      Params = JObject [(''name'', JString ''add_color''),
                        (''arguments'', JObject [(''color'', JString ''blue'')])]\<rparr> =
     (\<lparr>JSONRPC = ''2.0'', ID = JNumber 3,
       Result = Some [(''content'', VMaps [[(''type'', JString ''text''),
         (''text'', JString (''Successfully added '' @ [quote] @ ''blue'' @ [quote] @ '' to your favorite colors!''))]])],
       Error = None\<rparr>,
      NewServer\<lparr>storage := \<lparr>colors = [''blue'']\<rparr>\<rparr>)"
    using color_tools_argument
      [of "\<lparr>reqJSONRPC = ''2.0'', reqID = JNumber 3, Method = ''tools/call'',
            Params = JObject [(''name'', JString ''add_color''),
                              (''arguments'', JObject [(''color'', JString ''blue'')])]\<rparr>"
          "[(''name'', JString ''add_color''), (''arguments'', JObject [(''color'', JString ''blue'')])]"
          id NewServer "[(''color'', JString ''blue'')]" "''blue''"]
    by (simp add: text_result_def storage_NewServer NewColorStorage_def AddColor_def)
  show "HandleRequest id (NewServer\<lparr>storage := \<lparr>colors = [''blue'']\<rparr>\<rparr>)
     \<lparr>reqJSONRPC = ''2.0'', reqID = JNumber 4, Method = ''tools/call'',
      Params = JObject [(''name'', JString ''remove_color''),
                        (''arguments'', JObject [(''color'', JString ''blue'')])]\<rparr> =
     (\<lparr>JSONRPC = ''2.0'', ID = JNumber 4,
       Result = Some [(''content'', VMaps [[(''type'', JString ''text''),
         (''text'', JString (''Successfully removed '' @ [quote] @ ''blue'' @ [quote] @ '' from your favorite colors!''))]])],
       Error = None\<rparr>,
      NewServer\<lparr>storage := \<lparr>colors = []\<rparr>\<rparr>)"
    using color_tools_argument
      [of "\<lparr>reqJSONRPC = ''2.0'', reqID = JNumber 4, Method = ''tools/call'',
            Params = JObject [(''name'', JString ''remove_color''),
                              (''arguments'', JObject [(''color'', JString ''blue'')])]\<rparr>"
          "[(''name'', JString ''remove_color''), (''arguments'', JObject [(''color'', JString ''blue'')])]"
          id "NewServer\<lparr>storage := \<lparr>colors = [''blue'']\<rparr>\<rparr>" "[(''color'', JString ''blue'')]" "''blue''"]
    by (simp add: text_result_def RemoveColor_def)
qed

text \<open>
  Claim C5. A \<^verbatim>\<open>tools/call\<close> request whose tool name is a string other than the four
  registered names gets the error response with code -32601, and so does a request whose
  method is none of \<open>initialize\<close>, \<open>tools/list\<close> and \<open>tools/call\<close>.
\<close>

theorem unknown_tool_or_method:
  "(Method req = ''tools/call'' \<and> Params req = JObject params \<and>
      map_of params ''name'' = Some (JString name) \<and>
      name \<notin> {''add_color'', ''get_colors'', ''remove_color'', ''clear_colors''} \<longrightarrow>
      HandleRequest range_order s req = (error_response req (- 32601) ''Tool not found'', s)) \<and>
   (Method req \<notin> {''initialize'', ''tools/list'', ''tools/call''} \<longrightarrow>
      HandleRequest range_order s req = (error_response req (- 32601) ''Method not found'', s))"
proof (intro conjI impI)
  assume h: "Method req = ''tools/call'' \<and> Params req = JObject params \<and>
      map_of params ''name'' = Some (JString name) \<and>
      name \<notin> {''add_color'', ''get_colors'', ''remove_color'', ''clear_colors''}"
  then have "handleToolsCall s req = (error_response req (- 32601) ''Tool not found'', s)"
    by (simp add: handleToolsCall_named)
  with h show "HandleRequest range_order s req = (error_response req (- 32601) ''Tool not found'', s)"
    by (simp add: HandleRequest_def)
next
  assume "Method req \<notin> {''initialize'', ''tools/list'', ''tools/call''}"
  then show "HandleRequest range_order s req = (error_response req (- 32601) ''Method not found'', s)"
    by (simp add: HandleRequest_def error_response_def)
qed

text \<open>The tool \<open>unknown_tool\<close>; the method \<open>not/a/method\<close>.\<close>

theorem unknown_tool_or_method_witness:
  "HandleRequest id NewServer
     \<lparr>reqJSONRPC = ''2.0'', reqID = JString ''a'', Method = ''tools/call'',
      Params = JObject [(''name'', JString ''unknown_tool'')]\<rparr> =
     (\<lparr>JSONRPC = ''2.0'', ID = JString ''a'', Result = None,
       Error = Some \<lparr>Code = - 32601, Message = ''Tool not found'', Data = JNull\<rparr>\<rparr>, NewServer) \<and>
   HandleRequest id NewServer
     \<lparr>reqJSONRPC = ''2.0'', reqID = JNull, Method = ''not/a/method'', Params = JNull\<rparr> =
     (\<lparr>JSONRPC = ''2.0'', ID = JNull, Result = None,
       Error = Some \<lparr>Code = - 32601, Message = ''Method not found'', Data = JNull\<rparr>\<rparr>, NewServer)"
  using unknown_tool_or_method
      [of "\<lparr>reqJSONRPC = ''2.0'', reqID = JString ''a'', Method = ''tools/call'',
            Params = JObject [(''name'', JString ''unknown_tool'')]\<rparr>"
          "[(''name'', JString ''unknown_tool'')]" "''unknown_tool''" id NewServer]
    unknown_tool_or_method
      [of "\<lparr>reqJSONRPC = ''2.0'', reqID = JNull, Method = ''not/a/method'', Params = JNull\<rparr>"
          "[]" "''''" id NewServer]
  by (simp add: error_response_def)

text \<open>
  Claim C9. Whenever the response carries an error, the server, and with it the color
  store, is returned as it was; and the same request on a server holding any other store
  \<open>cs\<close> gets the same response and leaves that store as it was, so the store has not
  been read on the way to the error.
\<close>

theorem error_response_leaves_store:
  "Error (fst (HandleRequest range_order s req)) \<noteq> None \<longrightarrow>
     snd (HandleRequest range_order s req) = s \<and>
     HandleRequest range_order (s\<lparr>storage := cs\<rparr>) req =
       (fst (HandleRequest range_order s req), s\<lparr>storage := cs\<rparr>)"
proof
  assume "Error (fst (HandleRequest range_order s req)) \<noteq> None"
  from HandleRequest_error [OF this] obtain code msg
    where all: "\<forall>s'. HandleRequest range_order s' req = (error_response req code msg, s')"
    by blast
  then show "snd (HandleRequest range_order s req) = s \<and>
     HandleRequest range_order (s\<lparr>storage := cs\<rparr>) req =
       (fst (HandleRequest range_order s req), s\<lparr>storage := cs\<rparr>)"
    by simp
qed

text \<open>The refused \<open>add_color\<close> without a color, on a new server and on one that holds red.\<close>

theorem error_response_leaves_store_witness:
  "Error (fst (HandleRequest id NewServer
      \<lparr>reqJSONRPC = ''2.0'', reqID = JNumber 1, Method = ''tools/call'',
       Params = JObject [(''name'', JString ''add_color''), (''arguments'', JObject [])]\<rparr>)) \<noteq> None \<and>
   snd (HandleRequest id NewServer
      \<lparr>reqJSONRPC = ''2.0'', reqID = JNumber 1, Method = ''tools/call'',
       Params = JObject [(''name'', JString ''add_color''), (''arguments'', JObject [])]\<rparr>) = NewServer \<and>
   fst (HandleRequest id (NewServer\<lparr>storage := \<lparr>colors = [''red'']\<rparr>\<rparr>)
      \<lparr>reqJSONRPC = ''2.0'', reqID = JNumber 1, Method = ''tools/call'',
       Params = JObject [(''name'', JString ''add_color''), (''arguments'', JObject [])]\<rparr>) =
     fst (HandleRequest id NewServer
      \<lparr>reqJSONRPC = ''2.0'', reqID = JNumber 1, Method = ''tools/call'',
       Params = JObject [(''name'', JString ''add_color''), (''arguments'', JObject [])]\<rparr>)"
proof -
  have err: "Error (fst (HandleRequest id NewServer
      \<lparr>reqJSONRPC = ''2.0'', reqID = JNumber 1, Method = ''tools/call'',
       Params = JObject [(''name'', JString ''add_color''), (''arguments'', JObject [])]\<rparr>)) \<noteq> None"
    by (simp add: HandleRequest_def handleToolsCall_def handleAddColor_def lookup_def)
  with error_response_leaves_store
      [of id NewServer
          "\<lparr>reqJSONRPC = ''2.0'', reqID = JNumber 1, Method = ''tools/call'',
            Params = JObject [(''name'', JString ''add_color''), (''arguments'', JObject [])]\<rparr>"
          "\<lparr>colors = [''red'']\<rparr>"]
  show ?thesis
    by simp
qed

end
